theory Spec2Isabelle
  imports Complex_Main "HOL-Library.Product_Lexorder" "HOL-Library.AList"
begin

section \<open>JavaScript values and failures\<close>

text \<open>
  An exception is a value: \<open>TypeError\<close> is what the runtime or the semver library
  raises (a property read on \<open>undefined\<close> or \<open>null\<close>, an invalid version),
  \<open>SyntaxError\<close> and \<open>ModuleNotFound\<close> are what \<open>require\<close> raises on a file that
  is not JSON or does not exist, and \<open>Error msg\<close> is what the program itself throws
  with \<open>new Error(msg)\<close>.
\<close>

datatype error = TypeError | SyntaxError | ModuleNotFound | Error string

text \<open>
  The state of a promise when nothing more can happen: still pending (the event it waits
  for never arrives), resolved or rejected.
\<close>

datatype 'a promise = Pending | Resolved 'a | Rejected error

text \<open>
  A parsed JSON document, as \<open>require\<close> returns it for a \<open>.json\<close> file. An object keeps
  its keys in order, as an association list; a number is the rational it denotes.
\<close>

datatype json =
    JNull
  | JBool bool
  | JNumber rat
  | JString string
  | JArray "json list"
  | JObject "(string \<times> json) list"

text \<open>JavaScript truthiness of a JSON value (\<open>if (npmUrl)\<close>).\<close>

fun truthy :: "json \<Rightarrow> bool" where
  "truthy JNull = False"
| "truthy (JBool b) = b"
| "truthy (JNumber r) = (r \<noteq> 0)"
| "truthy (JString s) = (s \<noteq> [])"
| "truthy (JArray xs) = True"
| "truthy (JObject kvs) = True"

text \<open>
  Reading the property \<open>k\<close> of a value, for the two keys the program reads
  (\<open>dependencies\<close> and \<open>kr-library\<close>, which no built-in prototype defines): \<open>null\<close>
  raises, an object gives its own property, \<open>None\<close> is \<open>undefined\<close>.
\<close>

fun js_get :: "json \<Rightarrow> string \<Rightarrow> error + json option" where
  "js_get JNull k = Inl TypeError"
| "js_get (JObject kvs) k = Inr (map_of kvs k)"
| "js_get v k = Inr None"

section \<open>Strings\<close>

definition is_digit :: "char \<Rightarrow> bool" where
  "is_digit c \<longleftrightarrow> c \<in> set ''0123456789''"

text \<open>\<open>s.split(d)\<close> for a one-character separator: the empty string gives one empty part.\<close>

fun split_on :: "char \<Rightarrow> string \<Rightarrow> string list" where
  "split_on d [] = [[]]"
| "split_on d (c # cs) =
     (if c = d then [] # split_on d cs
      else (case split_on d cs of [] \<Rightarrow> [[c]] | p # ps \<Rightarrow> (c # p) # ps))"

text \<open>\<open>parts.join(sep)\<close>.\<close>

fun join :: "string \<Rightarrow> string list \<Rightarrow> string" where
  "join sep [] = []"
| "join sep [p] = p"
| "join sep (p # q # ps) = p @ sep @ join sep (q # ps)"

text \<open>\<open>s.replace(pat, rep)\<close> with a string pattern: the first occurrence only.\<close>

fun replace_first :: "string \<Rightarrow> string \<Rightarrow> string \<Rightarrow> string" where
  "replace_first pat rep [] = (if pat = [] then rep else [])"
| "replace_first pat rep (c # cs) =
     (if take (length pat) (c # cs) = pat then rep @ drop (length pat) (c # cs)
      else c # replace_first pat rep cs)"

text \<open>\<open>s.includes(pat)\<close>.\<close>

fun includes_str :: "string \<Rightarrow> string \<Rightarrow> bool" where
  "includes_str [] pat = (pat = [])"
| "includes_str (c # cs) pat = (take (length pat) (c # cs) = pat \<or> includes_str cs pat)"

text \<open>\<open>s.padEnd(n, ' ')\<close>.\<close>

definition padEnd :: "string \<Rightarrow> nat \<Rightarrow> string" where
  "padEnd s n = s @ replicate (n - length s) CHR '' ''"

subsection \<open>The two regular expressions\<close>

text \<open>
  Both regular expressions of the program are a literal followed by
  \<open>[0-9]*\.[0-9]*\.[0-9]*\<close>. \<open>match_here lit s\<close> matches that at the start of \<open>s\<close> and
  gives the matched text and the rest. Each \<open>[0-9]*\<close> is greedy, and giving digits back
  never helps, since the next thing to match is a dot or nothing.
\<close>

definition match_here :: "string \<Rightarrow> string \<Rightarrow> (string \<times> string) option" where
  "match_here lit s =
     (if take (length lit) s \<noteq> lit then None
      else let r0 = drop (length lit) s;
               d1 = takeWhile is_digit r0; r1 = dropWhile is_digit r0
           in (case r1 of
                 [] \<Rightarrow> None
               | c1 # r1' \<Rightarrow>
                   if c1 \<noteq> CHR ''.'' then None
                   else let d2 = takeWhile is_digit r1'; r2 = dropWhile is_digit r1'
                        in (case r2 of
                              [] \<Rightarrow> None
                            | c2 # r2' \<Rightarrow>
                                if c2 \<noteq> CHR ''.'' then None
                                else let d3 = takeWhile is_digit r2'; r3 = dropWhile is_digit r2'
                                     in Some (lit @ d1 @ ''.'' @ d2 @ ''.'' @ d3, r3))))"

text \<open>
  \<open>s.match(/lit[0-9]*\.[0-9]*\.[0-9]*/g)\<close>: every match, from left to right, the search
  going on after the end of the previous match. The empty list stands for \<open>null\<close>.
\<close>

function match_all :: "string \<Rightarrow> string \<Rightarrow> string list" where
  "match_all lit [] = []"
| "match_all lit (c # cs) =
     (case match_here lit (c # cs) of
        Some (m, r) \<Rightarrow> m # match_all lit r
      | None \<Rightarrow> match_all lit cs)"
  by pat_completeness auto
termination
proof (relation "measure (\<lambda>(lit, s). length s)", goal_cases)
  case 1
  show ?case by simp
next
  case (2 lit c cs)
  show ?case by simp
next
  case (3 lit c cs p m r)
  have shorter: "length (dropWhile is_digit xs) \<le> length xs" for xs
    by (simp add: length_dropWhile_le)
  from 3 have "match_here lit (c # cs) = Some (m, r)" by simp
  then obtain r1 r2 where
    r1: "dropWhile is_digit (drop (length lit) (c # cs)) = CHR ''.'' # r1" and
    r2: "dropWhile is_digit r1 = CHR ''.'' # r2" and
    r3: "r = dropWhile is_digit r2"
    by (auto simp: match_here_def Let_def split: if_splits list.splits)
  have "length r \<le> length r2" using r3 shorter by simp
  also have "length r2 < length r1" using shorter [of r1] r2 by simp
  also have "length r1 < length (drop (length lit) (c # cs))"
    using shorter [of "drop (length lit) (c # cs)"] r1 by simp
  also have "\<dots> \<le> length (c # cs)" by simp
  finally show ?case by simp
qed

section \<open>The semver library\<close>

text \<open>
  The program calls \<open>semver.compare\<close>, \<open>semver.lt\<close> and \<open>semver.maxSatisfying\<close> of the npm
  package \<open>semver\<close>, which is not part of the repository. It is modelled here on the
  version strings made of digits and dots only, which is what the two regular
  expressions of the program extract: such a string is a version when it is three
  numeric identifiers (\<open>0\<close>, or digits that do not start with \<open>0\<close>) separated by dots, none
  above \<open>Number.MAX_SAFE_INTEGER\<close>; anything else makes the constructor raise a
  \<open>TypeError\<close>. (The library's limit of 256 characters adds nothing: three such
  numbers and two dots are shorter.) Pre-release and build suffixes, the \<open>v\<close> prefix
  and surrounding blanks, which the library also reads, are outside this model.
\<close>

definition MAX_SAFE_INTEGER :: nat where
  "MAX_SAFE_INTEGER = 9007199254740991"

definition decimal :: "string \<Rightarrow> nat" where
  "decimal s = foldl (\<lambda>n c. 10 * n + (of_char c - 48)) 0 s"

definition numeric_identifier :: "string \<Rightarrow> bool" where
  "numeric_identifier s \<longleftrightarrow>
     s = ''0'' \<or> (s \<noteq> [] \<and> hd s \<noteq> CHR ''0'' \<and> list_all is_digit s)"

type_synonym version = "nat \<times> nat \<times> nat"

definition SemVer :: "string \<Rightarrow> error + version" where
  "SemVer v =
     (case split_on CHR ''.'' v of
        [a, b, c] \<Rightarrow>
          if numeric_identifier a \<and> numeric_identifier b \<and> numeric_identifier c
             \<and> decimal a \<le> MAX_SAFE_INTEGER \<and> decimal b \<le> MAX_SAFE_INTEGER
             \<and> decimal c \<le> MAX_SAFE_INTEGER
          then Inr (decimal a, decimal b, decimal c)
          else Inl TypeError
      | _ \<Rightarrow> Inl TypeError)"

definition compareIdentifiers :: "nat \<Rightarrow> nat \<Rightarrow> int" where
  "compareIdentifiers a b = (if a = b then 0 else if a < b then - 1 else 1)"

text \<open>\<open>SemVer.compare\<close> on versions without pre-release: major, then minor, then patch.\<close>

fun compareMain :: "version \<Rightarrow> version \<Rightarrow> int" where
  "compareMain (a1, a2, a3) (b1, b2, b3) =
     (if compareIdentifiers a1 b1 \<noteq> 0 then compareIdentifiers a1 b1
      else if compareIdentifiers a2 b2 \<noteq> 0 then compareIdentifiers a2 b2
      else compareIdentifiers a3 b3)"

definition semver_compare :: "string \<Rightarrow> string \<Rightarrow> error + int" where
  "semver_compare a b =
     (case SemVer a of
        Inl e \<Rightarrow> Inl e
      | Inr x \<Rightarrow> (case SemVer b of Inl e \<Rightarrow> Inl e | Inr y \<Rightarrow> Inr (compareMain x y)))"

definition semver_lt :: "string \<Rightarrow> string \<Rightarrow> error + bool" where
  "semver_lt a b =
     (case semver_compare a b of Inl e \<Rightarrow> Inl e | Inr r \<Rightarrow> Inr (r < 0))"



section \<open>Files and configuration\<close>

text \<open>
  The files the program reads, by path. A file that exists either parses as JSON or does
  not. The manifest of an installed kr-library (\<open>node_modules/kr-library/package.json\<close>,
  written by npm) is represented by the string in its \<open>version\<close> field, the only thing
  read from it; a component's own \<open>package.json\<close> is the JSON document it holds.
  \<open>require\<close> is taken to read the file as it is on disk.
\<close>

datatype 'a stored = Unparsable | Content 'a

record disk =
  lib_files :: "string \<Rightarrow> string stored option"
  pkg_files :: "string \<Rightarrow> json stored option"

text \<open>
  \<open>Constant\<close> after \<open>run\<close> has merged the configuration file into it: the remote URL and
  the component directories, in the key order of the configuration object. Before the
  merge \<open>COMPONENT_DIRECTORIES\<close> is \<open>undefined\<close>, over which \<open>for ... in\<close> iterates no
  key: that state is the empty list.
\<close>

record config =
  KR_LIB_URL :: string
  COMPONENT_DIRECTORIES :: "(string \<times> string) list"

definition COMPONENT_PKG_FILE :: string where
  "COMPONENT_PKG_FILE = ''package.json''"

definition KR_LIB_PKG_FILE :: string where
  "KR_LIB_PKG_FILE = ''node_modules/kr-library/package.json''"

definition MINIMUM_NPM_VERSION :: string where
  "MINIMUM_NPM_VERSION = ''5.7.1''"

definition KR_LIB_NPM_URL :: "config \<Rightarrow> string" where
  "KR_LIB_NPM_URL cst = ''git+'' @ KR_LIB_URL cst @ ''#semver:''"

text \<open>\<open>path.join\<close>, without the normalisation of \<open>.\<close>, \<open>..\<close> and doubled separators.\<close>

definition path_join :: "string \<Rightarrow> string \<Rightarrow> string" where
  "path_join a b = a @ ''/'' @ b"

section \<open>Component\<close>

record component =
  componentName :: string
  componentPath :: string
  packageJson :: string
  krLibraryPackageJson :: string
  exist :: bool
  currentVersion :: string
  expectedVersion :: string

definition checkExist :: "disk \<Rightarrow> string \<Rightarrow> bool" where
  "checkExist d path \<longleftrightarrow> lib_files d path \<noteq> None"

definition getCurrentVersion :: "disk \<Rightarrow> string \<Rightarrow> error + string" where
  "getCurrentVersion d path =
     (if \<not> checkExist d path then Inr []
      else (case lib_files d path of
              Some (Content version) \<Rightarrow> Inr version
            | _ \<Rightarrow> Inl (Error (''Could load '' @ path
                                 @ '', please make the file vailed''))))"

text \<open>\<open>require(file)\<close> of a JSON file.\<close>

definition require :: "disk \<Rightarrow> string \<Rightarrow> error + json" where
  "require d f =
     (case pkg_files d f of
        None \<Rightarrow> Inl ModuleNotFound
      | Some Unparsable \<Rightarrow> Inl SyntaxError
      | Some (Content pkg) \<Rightarrow> Inr pkg)"

text \<open>
  The body of the \<open>try\<close> of \<open>_getExpectedVersion\<close>, on the manifest already loaded:
  \<open>pkg.dependencies['kr-library']\<close>, then the first match of
  \<open>/#semver:[0-9]*\.[0-9]*\.[0-9]*/g\<close> with \<open>#semver:\<close> taken off. Reading a property of
  \<open>undefined\<close>, calling \<open>match\<close> on something that is not a string and indexing the
  \<open>null\<close> of a failed match all raise.
\<close>

definition expectedVersionOf :: "json \<Rightarrow> error + string" where
  "expectedVersionOf pkg =
     (case js_get pkg ''dependencies'' of
        Inl e \<Rightarrow> Inl e
      | Inr None \<Rightarrow> Inl TypeError
      | Inr (Some deps) \<Rightarrow>
          (case js_get deps ''kr-library'' of
             Inl e \<Rightarrow> Inl e
           | Inr None \<Rightarrow> Inr []
           | Inr (Some npmUrl) \<Rightarrow>
               if truthy npmUrl then
                 (case npmUrl of
                    JString s \<Rightarrow>
                      (case match_all ''#semver:'' s of
                         [] \<Rightarrow> Inl TypeError
                       | m # ms \<Rightarrow> Inr (replace_first ''#semver:'' [] m))
                  | _ \<Rightarrow> Inl TypeError)
               else Inr []))"

definition getExpectedVersion :: "disk \<Rightarrow> string \<Rightarrow> error + string" where
  "getExpectedVersion d path =
     (case (case require d path of Inl e \<Rightarrow> Inl e | Inr pkg \<Rightarrow> expectedVersionOf pkg) of
        Inl e \<Rightarrow> Inl (Error (''Could load '' @ path @ '', please make the file vailed''))
      | Inr version \<Rightarrow> Inr version)"

text \<open>\<open>new Component(name, path).initialize()\<close>.\<close>

definition initialize :: "disk \<Rightarrow> string \<Rightarrow> string \<Rightarrow> error + component" where
  "initialize d name path =
     (let pj = path_join path COMPONENT_PKG_FILE;
          kj = path_join path KR_LIB_PKG_FILE
      in (case getCurrentVersion d kj of
            Inl e \<Rightarrow> Inl e
          | Inr cur \<Rightarrow>
              (case getExpectedVersion d pj of
                 Inl e \<Rightarrow> Inl e
               | Inr expected \<Rightarrow>
                   Inr \<lparr>componentName = name, componentPath = path, packageJson = pj,
                        krLibraryPackageJson = kj, exist = checkExist d kj,
                        currentVersion = cur, expectedVersion = expected\<rparr>)))"

text \<open>\<open>compareVersion\<close> looks at the disk again, then at the versions read by \<open>initialize\<close>.\<close>

definition compareVersion :: "disk \<Rightarrow> component \<Rightarrow> error + int" where
  "compareVersion d c =
     (if \<not> checkExist d (krLibraryPackageJson c) then Inr (- 2)
      else semver_compare (currentVersion c) (expectedVersion c))"

text \<open>
  \<open>setVersionAsync\<close>: the promise it returns and the disk afterwards. The method is class
  code, hence strict: assigning a property on \<open>undefined\<close>, on \<open>null\<close> or on a primitive
  raises, and then nothing is written. A property set on an array is not an element, and
  \<open>JSON.stringify\<close> leaves it out. Setting a key of an object replaces its value in place
  or appends the key. The file is modelled by the document written, not by its bytes,
  and the write itself is taken to succeed.
\<close>

definition setVersionAsync ::
  "config \<Rightarrow> disk \<Rightarrow> component \<Rightarrow> string \<Rightarrow> unit promise \<times> disk" where
  "setVersionAsync cst d c version =
     (case require d (packageJson c) of
        Inl e \<Rightarrow> (Rejected e, d)
      | Inr pkg \<Rightarrow>
          (case js_get pkg ''dependencies'' of
             Inl e \<Rightarrow> (Rejected e, d)
           | Inr None \<Rightarrow> (Rejected TypeError, d)
           | Inr (Some JNull) \<Rightarrow> (Rejected TypeError, d)
           | Inr (Some (JBool b)) \<Rightarrow> (Rejected TypeError, d)
           | Inr (Some (JNumber r)) \<Rightarrow> (Rejected TypeError, d)
           | Inr (Some (JString s)) \<Rightarrow> (Rejected TypeError, d)
           | Inr (Some (JArray xs)) \<Rightarrow>
               (Resolved (), d\<lparr>pkg_files := (pkg_files d)(packageJson c \<mapsto> Content pkg)\<rparr>)
           | Inr (Some (JObject deps)) \<Rightarrow>
               (case pkg of
                  JObject kvs \<Rightarrow>
                    (Resolved (),
                     d\<lparr>pkg_files := (pkg_files d)(packageJson c \<mapsto>
                          Content (JObject (AList.update ''dependencies''
                            (JObject (AList.update ''kr-library''
                               (JString (KR_LIB_NPM_URL cst @ version)) deps)) kvs)))\<rparr>)
                | _ \<Rightarrow> (Rejected TypeError, d))))"

section \<open>LeyserkidsComponentCollection\<close>

record collection =
  root :: string
  components :: "component list"
  latestVersion :: "string option"

text \<open>\<open>Array.prototype.filter\<close> with a callback that may raise.\<close>

fun filter_raising :: "('a \<Rightarrow> error + bool) \<Rightarrow> 'a list \<Rightarrow> error + 'a list" where
  "filter_raising p [] = Inr []"
| "filter_raising p (x # xs) =
     (case p x of
        Inl e \<Rightarrow> Inl e
      | Inr b \<Rightarrow>
          (case filter_raising p xs of
             Inl e \<Rightarrow> Inl e
           | Inr ys \<Rightarrow> Inr (if b then x # ys else ys)))"

definition getUnInstalled :: "collection \<Rightarrow> component list" where
  "getUnInstalled pkgs = filter (\<lambda>c. \<not> exist c) (components pkgs)"

definition getUnExpected :: "collection \<Rightarrow> error + component list" where
  "getUnExpected pkgs =
     filter_raising (\<lambda>c. semver_lt (currentVersion c) (expectedVersion c)) (components pkgs)"

text \<open>A \<open>latestVersion\<close> that is \<open>null\<close> or \<open>undefined\<close> is no string: the library raises.\<close>

definition getUnLatested :: "collection \<Rightarrow> error + component list" where
  "getUnLatested pkgs =
     filter_raising
       (\<lambda>c. case latestVersion pkgs of
               None \<Rightarrow> Inl TypeError
             | Some latest \<Rightarrow> semver_lt (expectedVersion c) latest)
       (components pkgs)"

fun initComponents :: "disk \<Rightarrow> string \<Rightarrow> (string \<times> string) list \<Rightarrow> error + component list" where
  "initComponents d rt [] = Inr []"
| "initComponents d rt ((key, dir) # rest) =
     (case initialize d key (path_join rt dir) of
        Inl e \<Rightarrow> Inl e
      | Inr c \<Rightarrow>
          (case initComponents d rt rest of
             Inl e \<Rightarrow> Inl e
           | Inr cs \<Rightarrow> Inr (c # cs)))"

definition LeyserkidsComponentCollection ::
  "config \<Rightarrow> disk \<Rightarrow> string \<Rightarrow> string option \<Rightarrow> error + collection" where
  "LeyserkidsComponentCollection cst d rt latest =
     (case initComponents d rt (COMPONENT_DIRECTORIES cst) of
        Inl e \<Rightarrow> Inl e
      | Inr cs \<Rightarrow> Inr \<lparr>root = rt, components = cs, latestVersion = latest\<rparr>)"


section \<open>Log output and process results\<close>

text \<open>
  What the program writes, by logger, and the child processes it starts (\<open>Spawn cwd args\<close>
  is \<open>spawn('npm', args, {cwd})\<close>). \<open>FailedToRun e\<close> is the error line of the \<open>catch\<close> of
  \<open>run\<close>, whose text holds the message and stack of \<open>e\<close>.
\<close>

datatype event =
    Info string
  | Success string
  | ErrorLog string
  | Warning string
  | Spawn string "string list"
  | FailedToRun error

text \<open>How a call ends: it returns, the process exits, or it waits for ever.\<close>

datatype 'a outcome = Returns 'a | Exits int | Throws error | Waits

text \<open>Decimal digits of a number, for the exit code in a message.\<close>

fun digits_of :: "nat \<Rightarrow> string" where
  "digits_of n =
     (if n < 10 then [''0123456789'' ! n]
      else digits_of (n div 10) @ [''0123456789'' ! (n mod 10)])"

declare digits_of.simps [simp del]

definition show_code :: "int option \<Rightarrow> string" where
  "show_code code =
     (case code of
        None \<Rightarrow> ''null''
      | Some n \<Rightarrow> if n < 0 then ''-'' @ digits_of (nat (- n)) else digits_of (nat n))"

section \<open>PackageInstaller\<close>

text \<open>
  What an npm child process does: the chunks it writes, in order, and whether it ever
  closes, with which code (\<open>None\<close> is the \<open>null\<close> of a child killed by a signal). The
  children are given by the directory and arguments they are started with.
\<close>

datatype chunk = Stdout string | Stderr string

datatype closing = NeverCloses | Closes "int option"

record process =
  chunks :: "chunk list"
  closing :: closing

type_synonym npm = "string \<Rightarrow> string list \<Rightarrow> process"

definition log_chunk :: "chunk \<Rightarrow> event list" where
  "log_chunk ch =
     (case ch of
        Stdout s \<Rightarrow> [Info s]
      | Stderr s \<Rightarrow> if \<not> includes_str s ''npm update check failed'' then [ErrorLog s] else [])"

definition installPackage :: "npm \<Rightarrow> string \<Rightarrow> string list \<Rightarrow> event list \<times> int option promise" where
  "installPackage npm installPath paramArray =
     (let child = npm installPath paramArray
      in (Spawn installPath paramArray # concat (map log_chunk (chunks child)),
          (case closing child of NeverCloses \<Rightarrow> Pending | Closes code \<Rightarrow> Resolved code)))"

definition installSpecificVersionAsync ::
  "config \<Rightarrow> npm \<Rightarrow> string \<Rightarrow> string \<Rightarrow> event list \<times> unit promise" where
  "installSpecificVersionAsync cst npm installPath version =
     (let (events, p) = installPackage npm installPath [''install'', KR_LIB_NPM_URL cst @ version];
          started = Info (''Please wait, installing kr-library('' @ version @ '') into ''
                          @ installPath @ '' . . .'') # events
      in (case p of
            Resolved code \<Rightarrow>
              (started @
               [if code = Some 0
                then Success (''Install kr-library into '' @ installPath @ '' successfully'')
                else ErrorLog (''Failed install kr-library at '' @ installPath
                               @ '' with code: '' @ show_code code)],
               Resolved ())
          | Pending \<Rightarrow> (started, Pending)
          | Rejected e \<Rightarrow> (started, Rejected e)))"

text \<open>\<open>Promise.all\<close>: rejected as soon as one is, resolved when all are.\<close>

fun Promise_all :: "'a promise list \<Rightarrow> 'a list promise" where
  "Promise_all [] = Resolved []"
| "Promise_all (p # ps) =
     (case p of
        Rejected e \<Rightarrow> Rejected e
      | Pending \<Rightarrow> (case Promise_all ps of Rejected e \<Rightarrow> Rejected e | _ \<Rightarrow> Pending)
      | Resolved x \<Rightarrow>
          (case Promise_all ps of
             Rejected e \<Rightarrow> Rejected e
           | Pending \<Rightarrow> Pending
           | Resolved xs \<Rightarrow> Resolved (x # xs)))"

text \<open>
  A batch of installs. Install \<open>i\<close> starts after \<open>i * 500\<close> ms and they run side by side,
  so the lines of different installs interleave as the timing has it: the model gives
  the log of each install, in the order of the components, and the promise of the batch.
\<close>

definition installPackagesWithVersionAsync ::
  "config \<Rightarrow> npm \<Rightarrow> component list \<Rightarrow> (component \<Rightarrow> string) \<Rightarrow> event list list \<times> unit promise" where
  "installPackagesWithVersionAsync cst npm componentArray versionFinderFunc =
     (let installs = map (\<lambda>c. installSpecificVersionAsync cst npm (componentPath c)
                                 (versionFinderFunc c)) componentArray
      in (map fst installs,
          (case Promise_all (map snd installs) of
             Resolved us \<Rightarrow> Resolved ()
           | Pending \<Rightarrow> Pending
           | Rejected e \<Rightarrow> Rejected e)))"

definition installExpectAsync ::
  "config \<Rightarrow> npm \<Rightarrow> component list \<Rightarrow> event list list \<times> unit promise" where
  "installExpectAsync cst npm componentArray =
     installPackagesWithVersionAsync cst npm componentArray expectedVersion"

text \<open>A \<open>latestVersion\<close> that is \<open>null\<close> is appended to the URL as the text \<open>null\<close>.\<close>

definition installLatestAsync ::
  "config \<Rightarrow> npm \<Rightarrow> collection \<Rightarrow> component list \<Rightarrow> event list list \<times> unit promise" where
  "installLatestAsync cst npm pkgs componentArray =
     installPackagesWithVersionAsync cst npm componentArray
       (\<lambda>c. case latestVersion pkgs of None \<Rightarrow> ''null'' | Some v \<Rightarrow> v)"

section \<open>TableBuilder\<close>

text \<open>A cell of the table; \<open>str\<close> is empty until the layout sets it.\<close>

record cell =
  rawStr :: string
  length' :: nat
  col :: nat
  str :: string

definition new_cell :: "string \<Rightarrow> nat \<Rightarrow> cell" where
  "new_cell s i = \<lparr>rawStr = s, length' = length s, col = i, str = []\<rparr>"

definition HEADER_NAME :: "string list" where
  "HEADER_NAME = [''Module'', ''Installed'', ''Expected'', ''Latest'']"

definition margin :: string where
  "margin = ''    ''"

record tableBuilder =
  data :: "cell list list"
  width :: nat
  line :: string

text \<open>
  \<open>readSourceDate\<close>: one row of four cells per component, the values of the row object
  in the order its keys are written. The \<open>length\<close> of a \<open>null\<close> latest version raises.
\<close>

definition readSourceDate :: "collection \<Rightarrow> error + cell list list" where
  "readSourceDate pkgs =
     (if components pkgs = [] then Inr []
      else (case latestVersion pkgs of
              None \<Rightarrow> Inl TypeError
            | Some latest \<Rightarrow>
                Inr (map (\<lambda>c. [new_cell (componentName c) 0, new_cell (currentVersion c) 1,
                                new_cell (expectedVersion c) 2, new_cell latest 3])
                      (components pkgs))))"

definition header_row :: "cell list" where
  "header_row = [new_cell (HEADER_NAME ! 0) 0, new_cell (HEADER_NAME ! 1) 1,
                 new_cell (HEADER_NAME ! 2) 2, new_cell (HEADER_NAME ! 3) 3]"

text \<open>One step of the reduction that computes the column widths.\<close>

definition widen :: "nat list \<Rightarrow> cell list \<Rightarrow> nat list" where
  "widen acc cur =
     (let cl = map length' (sort_key col cur)
      in map (\<lambda>(a, c). if c > a then c else a) (zip acc cl))"

definition set_strs :: "nat list \<Rightarrow> cell list \<Rightarrow> cell list" where
  "set_strs cols row =
     map (\<lambda>(c, w). c\<lparr>str := padEnd (rawStr c) w @ margin\<rparr>) (zip (sort_key col row) cols)"

definition computeLayout :: "cell list list \<Rightarrow> tableBuilder" where
  "computeLayout rows =
     (let rows' = header_row # rows;
          cols = foldl widen [0, 0, 0, 0] rows';
          w = sum_list cols + (length HEADER_NAME - 1) * length margin
      in \<lparr>data = map (set_strs cols) rows', width = w, line = replicate w CHR ''-''\<rparr>)"

text \<open>The reduction of \<open>build\<close> over the rows, with the index of the row.\<close>

fun build_from :: "string \<Rightarrow> nat \<Rightarrow> string \<Rightarrow> cell list list \<Rightarrow> string" where
  "build_from dashes idx accRow [] = accRow"
| "build_from dashes idx accRow (curRow # rest) =
     build_from dashes (idx + 1)
       (accRow
        @ (if idx = 0 then [] else if idx = 1 then ''\<newline>'' @ dashes @ ''\<newline>'' else ''\<newline>'')
        @ concat (map str (sort_key col curRow)))
       rest"

definition build :: "cell list list \<Rightarrow> string" where
  "build rows = (let tb = computeLayout rows in build_from (line tb) 0 [] (data tb))"

definition showInstalledStatus :: "collection \<Rightarrow> error + event list" where
  "showInstalledStatus pkgs =
     (case readSourceDate pkgs of
        Inl e \<Rightarrow> Inl e
      | Inr rows \<Rightarrow> Inr [Info ''\<newline>Overview\<newline>========'', Info (build rows)])"

section \<open>Utils\<close>


section \<open>The exported checks\<close>



section \<open>Cli\<close>

text \<open>
  Standard input is the list of chunks still to arrive, one per line typed, and the
  \<open>data\<close> listeners attached so far, each given by the characters of its matcher:
  \<open>getUserInputAsync\<close> never removes its listener, so the listeners of earlier prompts
  still run on every chunk.
\<close>

record console =
  stdin :: "string list"
  listeners :: "string list"

text \<open>
  The matcher is \<open>new RegExp('[' + expectedInputs.join('|') + ']', 'g')\<close>: a character
  class, holding the characters of the joined text, the bar included. (This reading of
  the class is right as long as the inputs hold no character that is special inside
  brackets; the program passes \<open>y\<close> and \<open>n\<close>.)
\<close>

definition matcher_class :: "string list \<Rightarrow> string" where
  "matcher_class expectedInputs = join ''|'' expectedInputs"

text \<open>\<open>data.match(matcher)\<close>: the characters of \<open>data\<close> that are in the class, in order.\<close>

definition matches :: "string \<Rightarrow> string \<Rightarrow> string" where
  "matches cls dat = filter (\<lambda>c. c \<in> set cls) dat"

definition warn :: "string \<Rightarrow> string \<Rightarrow> event list" where
  "warn dat cls = (if length (matches cls dat) = 1 then [] else [Warning ''Invalied input''])"

text \<open>
  The chunks of input until the listener with class \<open>cls\<close> resolves its promise: the
  warnings written, the promise, and the chunks left.
\<close>

fun await_input :: "string \<Rightarrow> string list \<Rightarrow> string list \<Rightarrow> event list \<times> string promise \<times> string list" where
  "await_input cls earlier [] = ([], Pending, [])"
| "await_input cls earlier (dat # rest) =
     (if length (matches cls dat) = 1
      then (concat (map (warn dat) earlier), Resolved (matches cls dat), rest)
      else (case await_input cls earlier rest of
              (evs, p, rest') \<Rightarrow> (concat (map (warn dat) (earlier @ [cls])) @ evs, p, rest')))"

definition getUserInputAsync ::
  "string list \<Rightarrow> console \<Rightarrow> event list \<times> string promise \<times> console" where
  "getUserInputAsync expectedInputs con =
     (case await_input (matcher_class expectedInputs) (listeners con) (stdin con) of
        (evs, p, rest) \<Rightarrow>
          (evs, p, \<lparr>stdin = rest, listeners = listeners con @ [matcher_class expectedInputs]\<rparr>))"

text \<open>
  The trace of a run: the lines logged, and for a batch of installs the log of each
  install.
\<close>

datatype trace = Log event | Batch "event list list"

definition UNINSTALLED_PROMPT :: string where
  "UNINSTALLED_PROMPT = ''\<newline>Oops, The kr-library is not fully installed, \<newline>\<newline>Type [y] to confirm install or [n] to exit''"

definition OUTDATED_PROMPT :: string where
  "OUTDATED_PROMPT = ''\<newline>Oops, The kr-library is outdated, \<newline>\<newline>Type [y] to confirm install or [n] to ignore''"

definition LATEST_PROMPT :: string where
  "LATEST_PROMPT = ''\<newline>The latest version kr-library is available, \<newline>\<newline>Type [y] to confirm update to latest or [n] to ignore''"

definition after_install :: "unit promise \<Rightarrow> console outcome" where
  "after_install q = (case q of Resolved u \<Rightarrow> Exits 0 | Pending \<Rightarrow> Waits | Rejected e \<Rightarrow> Throws e)"

definition checkFullyInstalled ::
  "config \<Rightarrow> npm \<Rightarrow> collection \<Rightarrow> console \<Rightarrow> trace list \<times> console outcome" where
  "checkFullyInstalled cst npm pkgs con =
     (let unInstalled = getUnInstalled pkgs
      in if length unInstalled > 0 then
           (case getUserInputAsync [''y'', ''n''] con of
              (evs, p, con') \<Rightarrow>
                (let asked = Log (ErrorLog UNINSTALLED_PROMPT) # map Log evs
                 in (case p of
                       Pending \<Rightarrow> (asked, Waits)
                     | Rejected e \<Rightarrow> (asked, Throws e)
                     | Resolved ipt \<Rightarrow>
                         if ipt = ''y''
                         then (case installExpectAsync cst npm unInstalled of
                                 (logs, q) \<Rightarrow> (asked @ [Batch logs], after_install q))
                         else (asked, Exits 0))))
         else ([], Returns con))"

definition checkExpectedVersion ::
  "config \<Rightarrow> npm \<Rightarrow> collection \<Rightarrow> console \<Rightarrow> trace list \<times> console outcome" where
  "checkExpectedVersion cst npm pkgs con =
     (case getUnExpected pkgs of
        Inl e \<Rightarrow> ([], Throws e)
      | Inr unExpected \<Rightarrow>
          if length unExpected > 0 then
            (case getUserInputAsync [''y'', ''n''] con of
               (evs, p, con') \<Rightarrow>
                 (let asked = Log (ErrorLog OUTDATED_PROMPT) # map Log evs
                  in (case p of
                        Pending \<Rightarrow> (asked, Waits)
                      | Rejected e \<Rightarrow> (asked, Throws e)
                      | Resolved ipt \<Rightarrow>
                          if ipt = ''y''
                          then (case installExpectAsync cst npm unExpected of
                                  (logs, q) \<Rightarrow> (asked @ [Batch logs], after_install q))
                          else (asked, Returns con'))))
          else ([], Returns con))"

definition checkLatestVersion ::
  "config \<Rightarrow> npm \<Rightarrow> collection \<Rightarrow> console \<Rightarrow> trace list \<times> console outcome" where
  "checkLatestVersion cst npm pkgs con =
     (case getUnLatested pkgs of
        Inl e \<Rightarrow> ([], Throws e)
      | Inr unLatested \<Rightarrow>
          if length unLatested > 0 then
            (case getUserInputAsync [''y'', ''n''] con of
               (evs, p, con') \<Rightarrow>
                 (let asked = Log (Warning LATEST_PROMPT) # map Log evs
                  in (case p of
                        Pending \<Rightarrow> (asked, Waits)
                      | Rejected e \<Rightarrow> (asked, Throws e)
                      | Resolved ipt \<Rightarrow>
                          if ipt = ''y''
                          then (case installLatestAsync cst npm pkgs unLatested of
                                  (logs, q) \<Rightarrow> (asked @ [Batch logs], after_install q))
                          else (asked, Returns con'))))
          else ([], Returns con))"

text \<open>
  The three reconciliation steps in sequence: a step that does not return ends the
  sequence.
\<close>

definition reconcile ::
  "config \<Rightarrow> npm \<Rightarrow> collection \<Rightarrow> console \<Rightarrow> trace list \<times> console outcome" where
  "reconcile cst npm pkgs con =
     (case checkFullyInstalled cst npm pkgs con of
        (t1, Returns con1) \<Rightarrow>
          (case checkExpectedVersion cst npm pkgs con1 of
             (t2, Returns con2) \<Rightarrow>
               (case checkLatestVersion cst npm pkgs con2 of
                  (t3, o3) \<Rightarrow> (t1 @ t2 @ t3, o3))
           | (t2, o2) \<Rightarrow> (t1 @ t2, o2))
      | (t1, o1) \<Rightarrow> (t1, o1))"

text \<open>
  \<open>run\<close> from the point where it builds the collection (the environment checks and the
  discovery of the latest version have been made; \<open>rt\<close> is the root directory and
  \<open>latest\<close> the version found): the collection, the status table, the three steps, and
  the \<open>catch\<close> around it all, which logs and exits with code 1. The trace leaves out the
  lines written before this point and the copy of each caught error that the getters
  log before they throw their own.
\<close>

definition run ::
  "config \<Rightarrow> disk \<Rightarrow> npm \<Rightarrow> string \<Rightarrow> string option \<Rightarrow> console \<Rightarrow> trace list \<times> unit outcome" where
  "run cst d npm rt latest con =
     (case (case LeyserkidsComponentCollection cst d rt latest of
              Inl e \<Rightarrow> ([], Throws e)
            | Inr pkgs \<Rightarrow>
                (case showInstalledStatus pkgs of
                   Inl e \<Rightarrow> ([], Throws e)
                 | Inr shown \<Rightarrow>
                     (case reconcile cst npm pkgs con of
                        (t, out) \<Rightarrow> (map Log shown @ t, out)))) of
        (t, Throws e) \<Rightarrow> (t @ [Log (FailedToRun e)], Exits 1)
      | (t, Returns con') \<Rightarrow> (t, Returns ())
      | (t, Exits code) \<Rightarrow> (t, Exits code)
      | (t, Waits) \<Rightarrow> (t, Waits))"

section \<open>Notions used in the statements\<close>

text \<open>
  The text \<open>MAJOR.MINOR.PATCH\<close> of three numbers, in decimal without leading zeros,
  and the versions whose numbers the library accepts.
\<close>

definition version_string :: "version \<Rightarrow> string" where
  "version_string v =
     (case v of (major, minor, patch) \<Rightarrow>
        digits_of major @ ''.'' @ digits_of minor @ ''.'' @ digits_of patch)"

definition safe_version :: "version \<Rightarrow> bool" where
  "safe_version v =
     (case v of (major, minor, patch) \<Rightarrow>
        major \<le> MAX_SAFE_INTEGER \<and> minor \<le> MAX_SAFE_INTEGER \<and> patch \<le> MAX_SAFE_INTEGER)"




text \<open>A manifest that is an object with a \<open>dependencies\<close> field.\<close>

definition has_dependencies :: "json \<Rightarrow> bool" where
  "has_dependencies pkg =
     (case pkg of JObject kvs \<Rightarrow> map_of kvs ''dependencies'' \<noteq> None | _ \<Rightarrow> False)"

text \<open>
  The column widths that \<open>_computeLayout\<close> reduces the rows to, the text of a row once
  its cells are padded, and the rows that the table is made of: four cells, for the
  columns 0 to 3 in this order, which is what \<open>readSourceDate\<close> and the header give.
\<close>

definition column_widths :: "cell list list \<Rightarrow> nat list" where
  "column_widths rows = foldl widen [0, 0, 0, 0] (header_row # rows)"

definition row_text :: "nat list \<Rightarrow> cell list \<Rightarrow> string" where
  "row_text cols row = concat (map str (set_strs cols row))"

definition four_cells :: "cell list \<Rightarrow> bool" where
  "four_cells row \<longleftrightarrow> map col row = [0, 1, 2, 3]"

text \<open>A row none of whose texts holds a line break.\<close>

definition single_line :: "cell list \<Rightarrow> bool" where
  "single_line row \<longleftrightarrow> list_all (\<lambda>c. CHR ''\<newline>'' \<notin> set (rawStr c)) row"

section \<open>Example data\<close>

text \<open>
  A repository at \<open>/repo\<close> with two components: \<open>web\<close>, where kr-library has never been
  installed, and \<open>api\<close>, with version 1.0.0 installed; both manifests pin 1.2.0.
\<close>

definition demo_config :: config where
  "demo_config = \<lparr>KR_LIB_URL = ''https://git.example/kr.git'',
                   COMPONENT_DIRECTORIES = [(''web'', ''web''), (''api'', ''api'')]\<rparr>"

definition demo_manifest :: json where
  "demo_manifest = JObject [(''name'', JString ''app''),
     (''dependencies'', JObject [(''left-pad'', JString ''1.3.0''),
        (''kr-library'', JString ''git+https://git.example/kr.git#semver:1.2.0'')]),
     (''private'', JBool True)]"

definition demo_disk :: disk where
  "demo_disk =
     \<lparr>lib_files = (\<lambda>p. if p = ''/repo/api/node_modules/kr-library/package.json''
                         then Some (Content ''1.0.0'') else None),
      pkg_files = (\<lambda>p. if p = ''/repo/web/package.json'' \<or> p = ''/repo/api/package.json''
                         then Some (Content demo_manifest) else None)\<rparr>"

definition demo_web :: component where
  "demo_web = \<lparr>componentName = ''web'', componentPath = ''/repo/web'',
                packageJson = ''/repo/web/package.json'',
                krLibraryPackageJson = ''/repo/web/node_modules/kr-library/package.json'',
                exist = False, currentVersion = [], expectedVersion = ''1.2.0''\<rparr>"

definition demo_api :: component where
  "demo_api = \<lparr>componentName = ''api'', componentPath = ''/repo/api'',
                packageJson = ''/repo/api/package.json'',
                krLibraryPackageJson = ''/repo/api/node_modules/kr-library/package.json'',
                exist = True, currentVersion = ''1.0.0'', expectedVersion = ''1.2.0''\<rparr>"

text \<open>The example repository as a collection, and a collection without components.\<close>

definition demo_pkgs :: collection where
  "demo_pkgs = \<lparr>root = ''/repo'', components = [demo_web, demo_api],
                 latestVersion = Some ''1.2.0''\<rparr>"

definition empty_pkgs :: collection where
  "empty_pkgs = \<lparr>root = ''/repo'', components = [], latestVersion = Some ''1.2.0''\<rparr>"

text \<open>The same repository, with manifests that have no \<open>dependencies\<close>.\<close>

definition bare_disk :: disk where
  "bare_disk =
     \<lparr>lib_files = (\<lambda>p. None),
      pkg_files = (\<lambda>p. if p = ''/repo/web/package.json''
                         then Some (Content (JObject [(''name'', JString ''app'')])) else None)\<rparr>"


text \<open>
  A repository whose component \<open>web\<close> has an installed manifest with an empty
  \<open>version\<close> string, and the component that discovery builds for it.
\<close>

definition blank_version_disk :: disk where
  "blank_version_disk =
     \<lparr>lib_files = (\<lambda>p. if p = ''/repo/web/node_modules/kr-library/package.json''
                         then Some (Content []) else None),
      pkg_files = (\<lambda>p. if p = ''/repo/web/package.json''
                         then Some (Content demo_manifest) else None)\<rparr>"

definition blank_web :: component where
  "blank_web = \<lparr>componentName = ''web'', componentPath = ''/repo/web'',
                 packageJson = ''/repo/web/package.json'',
                 krLibraryPackageJson = ''/repo/web/node_modules/kr-library/package.json'',
                 exist = True, currentVersion = [], expectedVersion = ''1.2.0''\<rparr>"


text \<open>
  The npm of the example: the install under \<open>/repo/web\<close> fails with code 1, every
  other install succeeds.
\<close>

definition demo_npm :: npm where
  "demo_npm cwd args =
     (if cwd = ''/repo/web''
      then \<lparr>chunks = [Stderr ''npm ERR! code 128''], closing = Closes (Some 1)\<rparr>
      else \<lparr>chunks = [Stdout ''added 1 package''], closing = Closes (Some 0)\<rparr>)"

text \<open>The user types \<open>x\<close>, then \<open>y\<close>.\<close>

definition demo_console :: console where
  "demo_console = \<lparr>stdin = [''x\<newline>'', ''y\<newline>''], listeners = []\<rparr>"

section \<open>Facts about the example\<close>

lemma demo_expected: "expectedVersionOf demo_manifest = Inr ''1.2.0''"
  by code_simp

lemma demo_init_web: "initialize demo_disk ''web'' ''/repo/web'' = Inr demo_web"
  by (simp add: initialize_def path_join_def COMPONENT_PKG_FILE_def KR_LIB_PKG_FILE_def
      getCurrentVersion_def getExpectedVersion_def checkExist_def demo_disk_def require_def
      demo_expected demo_web_def)

lemma demo_init_api: "initialize demo_disk ''api'' ''/repo/api'' = Inr demo_api"
  by (simp add: initialize_def path_join_def COMPONENT_PKG_FILE_def KR_LIB_PKG_FILE_def
      getCurrentVersion_def getExpectedVersion_def checkExist_def demo_disk_def require_def
      demo_expected demo_api_def)

lemma demo_collection:
  "LeyserkidsComponentCollection demo_config demo_disk ''/repo'' latest =
     Inr \<lparr>root = ''/repo'', components = [demo_web, demo_api], latestVersion = latest\<rparr>"
  by (simp add: LeyserkidsComponentCollection_def demo_config_def path_join_def
      demo_init_web [unfolded path_join_def, simplified] demo_init_api [unfolded path_join_def, simplified])

section \<open>Version Comparator\<close>

subsection \<open>Decimal numbers\<close>

lemma digit_char_value: "d < 10 \<Longrightarrow> of_char (''0123456789'' ! d) - 48 = (d::nat)"
proof -
  assume "d < 10"
  then have "d < Suc (Suc (Suc (Suc (Suc (Suc (Suc (Suc (Suc (Suc 0)))))))))" by simp
  then show ?thesis by (auto simp: less_Suc_eq)
qed

lemma digit_char_is_digit: "d < 10 \<Longrightarrow> is_digit (''0123456789'' ! d)"
  unfolding is_digit_def by (rule nth_mem) simp

lemma digit_char_zero: "d < 10 \<Longrightarrow> (''0123456789'' ! d = CHR ''0'') = (d = 0)"
proof -
  assume "d < 10"
  then have "d < Suc (Suc (Suc (Suc (Suc (Suc (Suc (Suc (Suc (Suc 0)))))))))" by simp
  then show ?thesis by (auto simp: less_Suc_eq)
qed

lemma decimal_snoc: "decimal (xs @ [c]) = 10 * decimal xs + (of_char c - 48)"
  by (simp add: decimal_def)

lemma decimal_digits_of: "decimal (digits_of n) = n"
proof (induction n rule: digits_of.induct)
  case (1 n)
  show ?case
  proof (cases "n < 10")
    case True
    then show ?thesis
      by (subst digits_of.simps) (simp add: decimal_def digit_char_value)
  next
    case False
    with 1 have "decimal (digits_of (n div 10)) = n div 10" by simp
    with False show ?thesis
      by (subst digits_of.simps) (simp add: decimal_snoc digit_char_value)
  qed
qed

lemma digits_of_all_digits: "list_all is_digit (digits_of n)"
proof (induction n rule: digits_of.induct)
  case (1 n)
  show ?case
  proof (cases "n < 10")
    case True
    then show ?thesis by (subst digits_of.simps) (simp add: digit_char_is_digit)
  next
    case False
    with 1 have "list_all is_digit (digits_of (n div 10))" by simp
    with False show ?thesis by (subst digits_of.simps) (simp add: digit_char_is_digit)
  qed
qed

lemma digits_of_not_Nil: "digits_of n \<noteq> []"
  by (subst digits_of.simps) simp

lemma digits_of_hd: "0 < n \<Longrightarrow> hd (digits_of n) \<noteq> CHR ''0''"
proof (induction n rule: digits_of.induct)
  case (1 n)
  show ?case
  proof (cases "n < 10")
    case True
    with 1(2) digit_char_zero [of n] show ?thesis by (subst digits_of.simps) simp
  next
    case False
    then have "0 < n div 10" by simp
    with 1 False have "hd (digits_of (n div 10)) \<noteq> CHR ''0''" by simp
    with False show ?thesis
      by (subst digits_of.simps) (simp add: digits_of_not_Nil)
  qed
qed

lemma numeric_identifier_digits_of: "numeric_identifier (digits_of n)"
proof (cases "n = 0")
  case True
  have "digits_of 0 = ''0''" by (subst digits_of.simps) simp
  with True show ?thesis by (simp add: numeric_identifier_def)
next
  case False
  then show ?thesis
    by (simp add: numeric_identifier_def digits_of_not_Nil digits_of_hd digits_of_all_digits)
qed

lemma is_digit_not_dot: "is_digit c \<Longrightarrow> c \<noteq> CHR ''.''"
  by (auto simp: is_digit_def)

lemma split_on_no_sep: "d \<notin> set xs \<Longrightarrow> split_on d xs = [xs]"
  by (induction xs) auto

lemma split_on_sep: "d \<notin> set xs \<Longrightarrow> split_on d (xs @ d # ys) = xs # split_on d ys"
  by (induction xs) auto

lemma dot_not_in_digits: "list_all is_digit xs \<Longrightarrow> CHR ''.'' \<notin> set xs"
  by (auto simp: list_all_iff dest: is_digit_not_dot)

lemma split_version_string:
  "split_on CHR ''.'' (version_string (a, b, c)) = [digits_of a, digits_of b, digits_of c]"
  using dot_not_in_digits [OF digits_of_all_digits]
  by (simp add: version_string_def split_on_sep split_on_no_sep)

lemma SemVer_version_string:
  "a \<le> MAX_SAFE_INTEGER \<Longrightarrow> b \<le> MAX_SAFE_INTEGER \<Longrightarrow> c \<le> MAX_SAFE_INTEGER \<Longrightarrow>
   SemVer (version_string (a, b, c)) = Inr (a, b, c)"
  by (simp add: SemVer_def split_version_string numeric_identifier_digits_of decimal_digits_of)

subsection \<open>Comparison\<close>

lemma compareMain_order:
  "compareMain x y = (if x < y then - 1 else if x = y then 0 else 1)"
  by (cases x; cases y) (auto simp: compareIdentifiers_def less_prod_def)

lemma SemVer_empty: "SemVer [] = Inl TypeError"
  by (simp add: SemVer_def)

lemma SemVer_error: "SemVer v = Inl e \<Longrightarrow> e = TypeError"
  by (auto simp: SemVer_def split: list.splits if_splits)

lemma SemVer_safe: "safe_version p \<Longrightarrow> SemVer (version_string p) = Inr p"
  by (cases p) (simp add: safe_version_def SemVer_version_string)

lemma semver_compare_empty: "semver_compare [] v = Inl TypeError"
  by (simp add: semver_compare_def SemVer_empty)

lemma semver_compare_error:
  assumes "semver_compare a b = Inl e"
  shows "e = TypeError"
proof (cases "SemVer a")
  case (Inl e1)
  then have "e1 = TypeError" by (rule SemVer_error)
  with Inl assms show ?thesis by (simp add: semver_compare_def)
next
  case x: (Inr x)
  show ?thesis
  proof (cases "SemVer b")
    case (Inl e2)
    then have "e2 = TypeError" by (rule SemVer_error)
    with Inl x assms show ?thesis by (simp add: semver_compare_def)
  next
    case (Inr y)
    with x assms show ?thesis by (simp add: semver_compare_def)
  qed
qed

lemma semver_lt_error:
  assumes "semver_lt a b = Inl e"
  shows "e = TypeError"
proof (cases "semver_compare a b")
  case (Inl e1)
  then have "e1 = TypeError" by (rule semver_compare_error)
  with Inl assms show ?thesis by (simp add: semver_lt_def)
next
  case (Inr r)
  with assms show ?thesis by (simp add: semver_lt_def)
qed

lemma filter_raising_raises:
  "x \<in> set xs \<Longrightarrow> p x = Inl e \<Longrightarrow> (\<And>y e'. p y = Inl e' \<Longrightarrow> e' = e) \<Longrightarrow>
   filter_raising p xs = Inl e"
proof (induction xs)
  case Nil
  from Nil(1) show ?case by simp
next
  case (Cons y ys)
  show ?case
  proof (cases "p y")
    case (Inl e')
    from Cons.prems(3) [OF Inl] Inl show ?thesis by simp
  next
    case (Inr b)
    with Cons.prems(1,2) have "x \<in> set ys" by auto
    then have "filter_raising p ys = Inl e"
      by (rule Cons.IH) (fact Cons.prems(2), erule Cons.prems(3))
    with Inr show ?thesis by simp
  qed
qed

text \<open>
  C1, as the code has it. The comparator accepts the standard strings
  \<open>MAJOR.MINOR.PATCH\<close> and orders them by major, then minor, then patch, as numbers.
  It does not accept the empty string: comparing the empty string with any string
  raises a \<open>TypeError\<close>, and so does \<open>getUnExpected\<close> on a collection that holds a
  component with an empty installed version. A component that was never installed is
  told by its missing manifest instead: \<open>compareVersion\<close> then returns \<open>-2\<close>, a
  negative result, without comparing.
\<close>

theorem version_comparator:
  assumes "safe_version p" and "safe_version q"
  shows "semver_compare (version_string p) (version_string q) =
           Inr (if p < q then - 1 else if p = q then 0 else 1)
       \<and> semver_lt (version_string p) (version_string q) = Inr (p < q)
       \<and> semver_compare [] v = Inl TypeError
       \<and> semver_lt [] v = Inl TypeError
       \<and> (lib_files d (krLibraryPackageJson c) = None \<longrightarrow> compareVersion d c = Inr (- 2))
       \<and> (c \<in> set (components pkgs) \<and> currentVersion c = [] \<longrightarrow>
            getUnExpected pkgs = Inl TypeError)"
proof -
  have cmp: "semver_compare (version_string p) (version_string q) =
      Inr (if p < q then - 1 else if p = q then 0 else 1)"
    using assms by (simp add: semver_compare_def SemVer_safe compareMain_order)
  have lt: "semver_lt (version_string p) (version_string q) = Inr (p < q)"
    by (simp add: semver_lt_def cmp)
  have e2: "semver_lt [] v = Inl TypeError"
    by (simp add: semver_lt_def semver_compare_empty)
  have miss: "lib_files d (krLibraryPackageJson c) = None \<longrightarrow> compareVersion d c = Inr (- 2)"
    by (simp add: compareVersion_def checkExist_def)
  have raises: "c \<in> set (components pkgs) \<and> currentVersion c = [] \<longrightarrow>
      getUnExpected pkgs = Inl TypeError"
  proof
    assume a: "c \<in> set (components pkgs) \<and> currentVersion c = []"
    then have "semver_lt (currentVersion c) (expectedVersion c) = Inl TypeError"
      by (simp add: semver_lt_def semver_compare_empty)
    moreover from a have "c \<in> set (components pkgs)" by simp
    ultimately show "getUnExpected pkgs = Inl TypeError"
      unfolding getUnExpected_def
      using filter_raising_raises
        [of c "components pkgs" "\<lambda>c. semver_lt (currentVersion c) (expectedVersion c)" TypeError]
        semver_lt_error
      by blast
  qed
  show ?thesis by (intro conjI cmp lt semver_compare_empty e2 miss raises)
qed

theorem version_comparator_witness:
  "semver_compare ''1.9.0'' ''1.10.0'' = Inr (- 1)
   \<and> semver_lt ''1.9.0'' ''1.10.0'' = Inr True
   \<and> semver_compare [] ''1.10.0'' = Inl TypeError
   \<and> semver_lt [] ''1.10.0'' = Inl TypeError
   \<and> compareVersion demo_disk demo_web = Inr (- 2)
   \<and> getUnExpected \<lparr>root = ''/repo'', components = [demo_web, demo_api],
                       latestVersion = Some ''1.2.0''\<rparr> = Inl TypeError"
proof -
  have p: "safe_version (1, 9, 0)" and q: "safe_version (1, 10, 0)"
    by (simp_all add: safe_version_def MAX_SAFE_INTEGER_def)
  have sp: "version_string (1, 9, 0) = ''1.9.0''" and sq: "version_string (1, 10, 0) = ''1.10.0''"
    by code_simp+
  have less: "((1, 9, 0) :: version) < (1, 10, 0)"
    by (simp add: less_prod_def)
  have absent: "lib_files demo_disk (krLibraryPackageJson demo_web) = None"
    by (simp add: demo_disk_def demo_web_def)
  have member: "demo_web \<in> set (components \<lparr>root = ''/repo'', components = [demo_web, demo_api],
      latestVersion = Some ''1.2.0''\<rparr>) \<and> currentVersion demo_web = []"
    by (simp add: demo_web_def)
  note inst = version_comparator [OF p q, of "''1.10.0''" demo_disk demo_web
      "\<lparr>root = ''/repo'', components = [demo_web, demo_api], latestVersion = Some ''1.2.0''\<rparr>",
      unfolded sp sq]
  from inst absent member less show ?thesis by simp
qed

text \<open>
  The claim as stated fails: the empty string is not less than \<open>1.0.0\<close>, the comparison
  raises; and the filter of the components behind their expected version raises on
  the example repository, whose component \<open>web\<close> was never installed.
\<close>

theorem empty_version_counterexample:
  "semver_lt [] ''1.0.0'' = Inl TypeError
   \<and> getUnExpected \<lparr>root = ''/repo'', components = [demo_web, demo_api],
                       latestVersion = Some ''1.2.0''\<rparr> = Inl TypeError"
  by code_simp

section \<open>Yes/no prompt\<close>








section \<open>setVersion round trip\<close>













section \<open>Latest remote version\<close>








section \<open>Installs\<close>

lemma install_closed:
  assumes "closing (npm p [''install'', KR_LIB_NPM_URL cst @ v]) = Closes code"
  shows "installSpecificVersionAsync cst npm p v =
           (Info (''Please wait, installing kr-library('' @ v @ '') into '' @ p @ '' . . .'')
            # Spawn p [''install'', KR_LIB_NPM_URL cst @ v]
            # concat (map log_chunk (chunks (npm p [''install'', KR_LIB_NPM_URL cst @ v])))
            @ [if code = Some 0
               then Success (''Install kr-library into '' @ p @ '' successfully'')
               else ErrorLog (''Failed install kr-library at '' @ p @ '' with code: ''
                              @ show_code code)],
            Resolved ())"
  using assms by (simp add: installSpecificVersionAsync_def installPackage_def Let_def)

lemma install_started:
  "Spawn p [''install'', KR_LIB_NPM_URL cst @ v] \<in> set (fst (installSpecificVersionAsync cst npm p v))"
  by (simp add: installSpecificVersionAsync_def installPackage_def Let_def
      split: promise.splits closing.splits)

lemma Promise_all_resolved:
  "list_all (\<lambda>p. \<exists>x. p = Resolved x) ps \<Longrightarrow> \<exists>xs. Promise_all ps = Resolved xs"
  by (induction ps) auto

lemma batch_install_resolved:
  assumes "list_all (\<lambda>c. closing (npm (componentPath c)
              [''install'', KR_LIB_NPM_URL cst @ versionFinderFunc c]) \<noteq> NeverCloses)
            componentArray"
  shows "snd (installPackagesWithVersionAsync cst npm componentArray versionFinderFunc) = Resolved ()"
proof -
  let ?one = "\<lambda>c. installSpecificVersionAsync cst npm (componentPath c) (versionFinderFunc c)"
  have "list_all (\<lambda>p. \<exists>x. p = Resolved x) (map (\<lambda>c. snd (?one c)) componentArray)"
    unfolding list_all_iff
  proof
    fix p assume "p \<in> set (map (\<lambda>c. snd (?one c)) componentArray)"
    then obtain c where c: "c \<in> set componentArray" and p: "p = snd (?one c)" by auto
    from assms c have "closing (npm (componentPath c)
        [''install'', KR_LIB_NPM_URL cst @ versionFinderFunc c]) \<noteq> NeverCloses"
      by (simp add: list_all_iff)
    then obtain code where "closing (npm (componentPath c)
        [''install'', KR_LIB_NPM_URL cst @ versionFinderFunc c]) = Closes code"
      by (cases "closing (npm (componentPath c)
        [''install'', KR_LIB_NPM_URL cst @ versionFinderFunc c])") auto
    from install_closed [where npm = npm and p = "componentPath c" and cst = cst
        and v = "versionFinderFunc c", OF this] p
    show "\<exists>x. p = Resolved x" by simp
  qed
  then obtain us where "Promise_all (map (\<lambda>c. snd (?one c)) componentArray) = Resolved us"
    by (blast dest: Promise_all_resolved)
  then show ?thesis
    by (simp add: installPackagesWithVersionAsync_def Let_def comp_def)
qed

lemma batch_install_started:
  assumes "i < length componentArray"
  shows "Spawn (componentPath (componentArray ! i))
           [''install'', KR_LIB_NPM_URL cst @ versionFinderFunc (componentArray ! i)]
         \<in> set (fst (installPackagesWithVersionAsync cst npm componentArray versionFinderFunc) ! i)"
  using assms
  by (simp add: installPackagesWithVersionAsync_def Let_def comp_def install_started)

section \<open>The orchestrator\<close>

lemma await_input_warnings:
  "await_input cls earlier inp = (evs, p, rest) \<Longrightarrow> set evs \<subseteq> {Warning ''Invalied input''}"
proof (induction inp arbitrary: evs p rest)
  case Nil
  then show ?case by simp
next
  case (Cons dat inp)
  have w: "set (concat (map (warn dat) ks)) \<subseteq> {Warning ''Invalied input''}" for ks
    by (auto simp: warn_def)
  show ?case
  proof (cases "length (matches cls dat) = 1")
    case True
    with Cons.prems w [of earlier] show ?thesis by auto
  next
    case False
    obtain evs' p' rest' where r: "await_input cls earlier inp = (evs', p', rest')"
      by (cases "await_input cls earlier inp") auto
    from Cons.IH [OF r] have "set evs' \<subseteq> {Warning ''Invalied input''}" .
    moreover from False r Cons.prems
    have "evs = concat (map (warn dat) (earlier @ [cls])) @ evs'" by simp
    ultimately show ?thesis using w [of "earlier @ [cls]"] by auto
  qed
qed

lemma getUserInputAsync_warnings:
  "getUserInputAsync expectedInputs con = (evs, p, con') \<Longrightarrow>
   set evs \<subseteq> {Warning ''Invalied input''}"
  by (auto simp: getUserInputAsync_def split: prod.splits dest: await_input_warnings)

text \<open>
  C5. When the collection is built with a latest version, some component was never
  installed, the user answers \<open>y\<close> at the prompt and the installs finish: the run
  shows the status table, asks, starts the install of every never-installed component
  at its expected version (one batch), and exits with code 0. The trace ends with that
  batch: the prompts of the two later steps are not in it.
\<close>

theorem reconcile_uninstalled_yes:
  assumes built: "LeyserkidsComponentCollection cst d rt (Some latest) = Inr pkgs"
    and some: "getUnInstalled pkgs \<noteq> []"
    and yes: "getUserInputAsync [''y'', ''n''] con = (evs, Resolved ''y'', con')"
    and finish: "list_all (\<lambda>c. closing (npm (componentPath c)
                   [''install'', KR_LIB_NPM_URL cst @ expectedVersion c]) \<noteq> NeverCloses)
                 (getUnInstalled pkgs)"
  shows "(\<exists>shown. showInstalledStatus pkgs = Inr shown
            \<and> run cst d npm rt (Some latest) con =
                (map Log shown @ [Log (ErrorLog UNINSTALLED_PROMPT)] @ map Log evs
                 @ [Batch (fst (installExpectAsync cst npm (getUnInstalled pkgs)))],
                 Exits 0))
       \<and> (\<forall>i < length (getUnInstalled pkgs).
            Spawn (componentPath (getUnInstalled pkgs ! i))
              [''install'', KR_LIB_NPM_URL cst @ expectedVersion (getUnInstalled pkgs ! i)]
            \<in> set (fst (installExpectAsync cst npm (getUnInstalled pkgs)) ! i))
       \<and> Log (ErrorLog OUTDATED_PROMPT) \<notin> set (fst (run cst d npm rt (Some latest) con))
       \<and> Log (Warning LATEST_PROMPT) \<notin> set (fst (run cst d npm rt (Some latest) con))"
proof -
  from built have latest: "latestVersion pkgs = Some latest"
    by (auto simp: LeyserkidsComponentCollection_def split: sum.splits)
  from some have comps: "components pkgs \<noteq> []"
    by (auto simp: getUnInstalled_def)
  define shown where "shown = [Info ''\<newline>Overview\<newline>========'',
    Info (build (map (\<lambda>c. [new_cell (componentName c) 0, new_cell (currentVersion c) 1,
                           new_cell (expectedVersion c) 2, new_cell latest 3])
                  (components pkgs)))]"
  have status: "showInstalledStatus pkgs = Inr shown"
    using latest comps by (simp add: showInstalledStatus_def readSourceDate_def shown_def)
  have resolved: "snd (installExpectAsync cst npm (getUnInstalled pkgs)) = Resolved ()"
    unfolding installExpectAsync_def using finish by (rule batch_install_resolved)
  have step: "checkFullyInstalled cst npm pkgs con =
      (Log (ErrorLog UNINSTALLED_PROMPT) # map Log evs
       @ [Batch (fst (installExpectAsync cst npm (getUnInstalled pkgs)))], Exits 0)"
  proof -
    obtain logs q where b: "installExpectAsync cst npm (getUnInstalled pkgs) = (logs, q)"
      by (cases "installExpectAsync cst npm (getUnInstalled pkgs)") auto
    with resolved have q: "q = Resolved ()" by simp
    from some yes b q show ?thesis
      by (simp add: checkFullyInstalled_def Let_def after_install_def)
  qed
  have all: "run cst d npm rt (Some latest) con =
      (map Log shown @ [Log (ErrorLog UNINSTALLED_PROMPT)] @ map Log evs
       @ [Batch (fst (installExpectAsync cst npm (getUnInstalled pkgs)))], Exits 0)"
    by (simp add: run_def built status reconcile_def step)
  have started: "\<forall>i < length (getUnInstalled pkgs).
      Spawn (componentPath (getUnInstalled pkgs ! i))
        [''install'', KR_LIB_NPM_URL cst @ expectedVersion (getUnInstalled pkgs ! i)]
      \<in> set (fst (installExpectAsync cst npm (getUnInstalled pkgs)) ! i)"
    unfolding installExpectAsync_def by (intro allI impI batch_install_started)
  from getUserInputAsync_warnings [OF yes]
  have evs: "set evs \<subseteq> {Warning ''Invalied input''}" .
  have prompts: "UNINSTALLED_PROMPT \<noteq> OUTDATED_PROMPT"
    by (simp add: UNINSTALLED_PROMPT_def OUTDATED_PROMPT_def)
  have no_outdated: "Log (ErrorLog OUTDATED_PROMPT) \<notin> set (fst (run cst d npm rt (Some latest) con))"
    using evs prompts by (auto simp: all shown_def)
  have no_latest: "Log (Warning LATEST_PROMPT) \<notin> set (fst (run cst d npm rt (Some latest) con))"
  proof -
    have "LATEST_PROMPT \<noteq> ''Invalied input''" by (simp add: LATEST_PROMPT_def)
    with evs show ?thesis by (auto simp: all shown_def)
  qed
  from status all started no_outdated no_latest show ?thesis by blast
qed

theorem reconcile_uninstalled_yes_witness:
  "snd (run demo_config demo_disk demo_npm ''/repo'' (Some ''1.2.0'') demo_console) = Exits 0
   \<and> Spawn ''/repo/web'' [''install'', ''git+https://git.example/kr.git#semver:1.2.0'']
       \<in> set (fst (installExpectAsync demo_config demo_npm [demo_web]) ! 0)
   \<and> Log (ErrorLog OUTDATED_PROMPT)
       \<notin> set (fst (run demo_config demo_disk demo_npm ''/repo'' (Some ''1.2.0'') demo_console))
   \<and> Log (Warning LATEST_PROMPT)
       \<notin> set (fst (run demo_config demo_disk demo_npm ''/repo'' (Some ''1.2.0'') demo_console))"
proof -
  let ?pkgs = "\<lparr>root = ''/repo'', components = [demo_web, demo_api],
                 latestVersion = Some ''1.2.0''\<rparr>"
  have un: "getUnInstalled ?pkgs = [demo_web]"
    by (simp add: getUnInstalled_def demo_web_def demo_api_def)
  have some: "getUnInstalled ?pkgs \<noteq> []"
    by (simp add: un)
  have yes: "getUserInputAsync [''y'', ''n''] demo_console =
      ([Warning ''Invalied input''], Resolved ''y'', \<lparr>stdin = [], listeners = [''y|n'']\<rparr>)"
    by (simp add: getUserInputAsync_def demo_console_def matcher_class_def matches_def warn_def)
  have finish: "list_all (\<lambda>c. closing (demo_npm (componentPath c)
      [''install'', KR_LIB_NPM_URL demo_config @ expectedVersion c]) \<noteq> NeverCloses)
      (getUnInstalled ?pkgs)"
    by (simp add: un demo_npm_def)
  have args: "KR_LIB_NPM_URL demo_config @ expectedVersion demo_web =
      ''git+https://git.example/kr.git#semver:1.2.0''"
    and path: "componentPath demo_web = ''/repo/web''"
    by (simp_all add: KR_LIB_NPM_URL_def demo_config_def demo_web_def)
  note t = reconcile_uninstalled_yes [OF demo_collection [of "Some ''1.2.0''"] some yes finish]
  from t have exits: "snd (run demo_config demo_disk demo_npm ''/repo'' (Some ''1.2.0'') demo_console)
      = Exits 0"
    by auto
  from t have "\<forall>i < length (getUnInstalled ?pkgs).
      Spawn (componentPath (getUnInstalled ?pkgs ! i))
        [''install'', KR_LIB_NPM_URL demo_config @ expectedVersion (getUnInstalled ?pkgs ! i)]
      \<in> set (fst (installExpectAsync demo_config demo_npm (getUnInstalled ?pkgs)) ! i)"
    by blast
  then have started: "Spawn ''/repo/web'' [''install'', ''git+https://git.example/kr.git#semver:1.2.0'']
      \<in> set (fst (installExpectAsync demo_config demo_npm [demo_web]) ! 0)"
    by (simp add: un args path)
  from t exits started show ?thesis by blast
qed

section \<open>Status table\<close>

lemma four_cellsE:
  assumes "four_cells r"
  obtains a b c d where "r = [a, b, c, d]" "col a = 0" "col b = 1" "col c = 2" "col d = 3"
  using assms unfolding four_cells_def by (auto simp: map_eq_Cons_conv)

lemma sort_four_cells: "four_cells r \<Longrightarrow> sort_key col r = r"
  by (erule four_cellsE) (simp add: sort_key_def)

lemma four_cells_header: "four_cells header_row"
  by (simp add: four_cells_def header_row_def new_cell_def)

lemma four_cells_source:
  assumes "readSourceDate pkgs = Inr rows"
  shows "list_all four_cells rows"
proof (cases "components pkgs = []")
  case True
  with assms show ?thesis by (simp add: readSourceDate_def)
next
  case False
  with assms show ?thesis
    by (auto simp: readSourceDate_def list_all_iff four_cells_def new_cell_def
        split: option.splits)
qed

lemma widen_four:
  assumes "four_cells r" and "length acc = 4"
  shows "length (widen acc r) = 4"
    and "i < 4 \<Longrightarrow> acc ! i \<le> widen acc r ! i"
    and "i < 4 \<Longrightarrow> length' (r ! i) \<le> widen acc r ! i"
proof -
  from assms(1) obtain a b c d where r: "r = [a, b, c, d]"
    by (rule four_cellsE)
  from assms(2) obtain w x y z where acc: "acc = [w, x, y, z]"
    by (auto simp: length_Suc_conv numeral_eq_Suc)
  have "sort_key col r = r" using assms(1) by (rule sort_four_cells)
  then have w: "widen [w, x, y, z] [a, b, c, d] =
      [if length' a > w then length' a else w, if length' b > x then length' b else x,
       if length' c > y then length' c else y, if length' d > z then length' d else z]"
    by (simp add: widen_def r acc)
  have i4: "i < 4 \<Longrightarrow> i = 0 \<or> i = 1 \<or> i = 2 \<or> i = 3" by auto
  show "length (widen acc r) = 4"
    by (simp add: r acc w)
  show "i < 4 \<Longrightarrow> acc ! i \<le> widen acc r ! i"
    using i4 by (auto simp: r acc w)
  show "i < 4 \<Longrightarrow> length' (r ! i) \<le> widen acc r ! i"
    using i4 by (auto simp: r acc w)
qed

lemma foldl_widen:
  assumes "list_all four_cells rows" and "length acc = 4"
  shows "length (foldl widen acc rows) = 4 \<and> (\<forall>i < 4. acc ! i \<le> foldl widen acc rows ! i)"
  using assms
proof (induction rows arbitrary: acc)
  case Nil
  then show ?case by simp
next
  case (Cons r rows)
  from Cons.prems have r: "four_cells r" and rows: "list_all four_cells rows" by simp_all
  note w = widen_four [OF r Cons.prems(2)]
  from Cons.IH [OF rows w(1)]
  have len: "length (foldl widen (widen acc r) rows) = 4"
    and ge: "\<forall>i < 4. widen acc r ! i \<le> foldl widen (widen acc r) rows ! i"
    by simp_all
  have "\<forall>i < 4. acc ! i \<le> foldl widen (widen acc r) rows ! i"
  proof (intro allI impI)
    fix i :: nat assume i: "i < 4"
    from w(2) [OF i] ge i show "acc ! i \<le> foldl widen (widen acc r) rows ! i"
      by (meson order_trans)
  qed
  with len show ?case by simp
qed

lemma widen_header: "widen [0, 0, 0, 0] header_row = [6, 9, 8, 6]"
  by (simp add: widen_def sort_four_cells [OF four_cells_header])
     (simp add: header_row_def HEADER_NAME_def new_cell_def)

lemma column_widths_header:
  assumes "list_all four_cells rows"
  shows "length (column_widths rows) = 4"
    and "i < 4 \<Longrightarrow> length (HEADER_NAME ! i) \<le> column_widths rows ! i"
proof -
  have four: "length [6, 9, 8, 6 :: nat] = 4" by simp
  note f = foldl_widen [OF assms four]
  show "length (column_widths rows) = 4"
    using f by (simp add: column_widths_def widen_header)
  assume i: "i < 4"
  then have "i = 0 \<or> i = 1 \<or> i = 2 \<or> i = 3" by auto
  then have "length (HEADER_NAME ! i) = [6, 9, 8, 6] ! i"
    by (auto simp: HEADER_NAME_def)
  with f i show "length (HEADER_NAME ! i) \<le> column_widths rows ! i"
    by (simp add: column_widths_def widen_header)
qed

lemma four_cells_set_strs:
  assumes "four_cells r" and "length cols = 4"
  shows "four_cells (set_strs cols r)"
proof -
  from assms(1) obtain a b c d where r: "r = [a, b, c, d]"
    and c: "col a = 0" "col b = 1" "col c = 2" "col d = 3"
    by (rule four_cellsE)
  from assms(2) obtain w x y z where cols: "cols = [w, x, y, z]"
    by (auto simp: length_Suc_conv numeral_eq_Suc)
  have "sort_key col [a, b, c, d] = [a, b, c, d]"
    using sort_four_cells [OF assms(1)] r by simp
  then show ?thesis
    by (simp add: set_strs_def r cols four_cells_def c)
qed

lemma sorted_row_text:
  assumes "four_cells r" and "length cols = 4"
  shows "concat (map str (sort_key col (set_strs cols r))) = row_text cols r"
  using sort_four_cells [OF four_cells_set_strs [OF assms]] by (simp add: row_text_def)

lemma build_from_tail:
  "2 \<le> idx \<Longrightarrow>
   build_from dashes idx acc rs =
     acc @ concat (map (\<lambda>r. ''\<newline>'' @ concat (map str (sort_key col r))) rs)"
  by (induction rs arbitrary: idx acc) simp_all

lemma join_Cons: "join sep (x # xs) = x @ concat (map (\<lambda>y. sep @ y) xs)"
  by (induction xs arbitrary: x) simp_all

lemma build_rows:
  assumes "list_all four_cells rows" and "rows \<noteq> []"
  shows "build rows =
           join ''\<newline>'' (row_text (column_widths rows) header_row
                              # line (computeLayout rows)
                              # map (row_text (column_widths rows)) rows)"
proof -
  define cols where "cols = column_widths rows"
  define dashes where "dashes = line (computeLayout rows)"
  from assms(2) obtain r rs where rows: "rows = r # rs" by (cases rows) auto
  from assms(1) rows have fr: "four_cells r" and frs: "list_all four_cells rs" by simp_all
  have len: "length cols = 4"
    unfolding cols_def using assms(1) by (rule column_widths_header(1))
  have laid: "concat (map str (sort_key col (set_strs cols x))) = row_text cols x"
    if "four_cells x" for x
    using that len by (rule sorted_row_text)
  have tail: "concat (map (\<lambda>x. ''\<newline>'' @ concat (map str (sort_key col x)))
        (map (set_strs cols) rs)) =
      concat (map (\<lambda>x. ''\<newline>'' @ row_text cols x) rs)"
    using frs by (induction rs) (simp_all add: laid)
  have layout: "data (computeLayout rows) = map (set_strs cols) (header_row # rows)"
    by (simp add: computeLayout_def Let_def column_widths_def cols_def)
  have "build rows = build_from dashes 0 [] (map (set_strs cols) (header_row # r # rs))"
    by (simp add: build_def Let_def layout dashes_def rows [symmetric])
  also have "\<dots> = build_from dashes 2
      (row_text cols header_row @ ''\<newline>'' @ dashes @ ''\<newline>'' @ row_text cols r)
      (map (set_strs cols) rs)"
    by (simp add: laid [OF four_cells_header] laid [OF fr] numeral_2_eq_2)
  also have "\<dots> = (row_text cols header_row @ ''\<newline>'' @ dashes @ ''\<newline>''
      @ row_text cols r)
      @ concat (map (\<lambda>x. ''\<newline>'' @ concat (map str (sort_key col x)))
          (map (set_strs cols) rs))"
    by (rule build_from_tail) simp
  also have "\<dots> = row_text cols header_row @ ''\<newline>'' @ dashes @ ''\<newline>''
      @ row_text cols r @ concat (map (\<lambda>x. ''\<newline>'' @ row_text cols x) rs)"
    unfolding tail by simp
  also have "\<dots> = join ''\<newline>'' (row_text cols header_row # dashes
      # map (row_text cols) (r # rs))"
    by (simp add: join_Cons comp_def)
  finally show ?thesis
    unfolding rows [symmetric] cols_def dashes_def .
qed

lemma split_on_join:
  "list_all (\<lambda>x. d \<notin> set x) (x # xs) \<Longrightarrow> split_on d (join [d] (x # xs)) = x # xs"
proof (induction xs arbitrary: x)
  case Nil
  then show ?case by (simp add: split_on_no_sep)
next
  case (Cons y ys)
  from Cons.prems have x: "d \<notin> set x" and rest: "list_all (\<lambda>x. d \<notin> set x) (y # ys)"
    by simp_all
  have "join [d] (x # y # ys) = x @ d # join [d] (y # ys)" by simp
  with split_on_sep [OF x] Cons.IH [OF rest] show ?case by simp
qed

lemma row_text_single_line:
  assumes "single_line r"
  shows "CHR ''\<newline>'' \<notin> set (row_text cols r)"
proof -
  have "CHR ''\<newline>'' \<notin> set (str c)" if "c \<in> set (set_strs cols r)" for c
  proof -
    from that obtain c0 w where "c0 \<in> set (sort_key col r)"
      and c: "c = c0\<lparr>str := padEnd (rawStr c0) w @ margin\<rparr>"
      by (auto simp: set_strs_def dest: set_zip_leftD)
    with assms have "CHR ''\<newline>'' \<notin> set (rawStr c0)"
      by (simp add: single_line_def list_all_iff)
    with c show ?thesis by (simp add: padEnd_def margin_def)
  qed
  then show ?thesis by (auto simp: row_text_def)
qed

lemma single_line_header: "single_line header_row"
  by (simp add: single_line_def header_row_def HEADER_NAME_def new_cell_def)

text \<open>
  C6, as the code has it, for a collection with at least one component and a latest
  version that is a string. The rows of the table are the components in their order,
  each with its name, installed, expected and the latest version. Each column is at
  least as wide as its header label. The separator is as long as the sum of the column
  widths plus the three margins between the columns. The table is the header row, the
  separator and one row per component, in this order, joined by line breaks: component
  count plus 2 rows; and when no text holds a line break, these are the lines of the
  output.
\<close>

theorem status_table:
  assumes "components pkgs \<noteq> []" and "latestVersion pkgs = Some latest"
  shows "\<exists>rows.
           readSourceDate pkgs = Inr rows
         \<and> map (map rawStr) rows =
             map (\<lambda>c. [componentName c, currentVersion c, expectedVersion c, latest])
               (components pkgs)
         \<and> (\<forall>i < 4. length (HEADER_NAME ! i) \<le> column_widths rows ! i)
         \<and> length (line (computeLayout rows)) =
             sum_list (column_widths rows) + 3 * length margin
         \<and> build rows =
             join ''\<newline>'' (row_text (column_widths rows) header_row
                                # line (computeLayout rows)
                                # map (row_text (column_widths rows)) rows)
         \<and> length (row_text (column_widths rows) header_row
                    # line (computeLayout rows)
                    # map (row_text (column_widths rows)) rows) =
             length (components pkgs) + 2
         \<and> (list_all single_line rows \<longrightarrow>
              split_on CHR ''\<newline>'' (build rows) =
                row_text (column_widths rows) header_row
                # line (computeLayout rows)
                # map (row_text (column_widths rows)) rows)"
proof -
  define rows where "rows = map (\<lambda>c. [new_cell (componentName c) 0,
      new_cell (currentVersion c) 1, new_cell (expectedVersion c) 2, new_cell latest 3])
    (components pkgs)"
  have src: "readSourceDate pkgs = Inr rows"
    using assms by (simp add: readSourceDate_def rows_def)
  have raw: "map (map rawStr) rows =
      map (\<lambda>c. [componentName c, currentVersion c, expectedVersion c, latest]) (components pkgs)"
    by (simp add: rows_def new_cell_def comp_def)
  have four: "list_all four_cells rows"
    using src by (rule four_cells_source)
  have nonempty: "rows \<noteq> []"
    using assms(1) by (simp add: rows_def)
  have header: "\<forall>i < 4. length (HEADER_NAME ! i) \<le> column_widths rows ! i"
    using column_widths_header(2) [OF four] by blast
  have dashes: "length (line (computeLayout rows)) =
      sum_list (column_widths rows) + 3 * length margin"
    by (simp add: computeLayout_def Let_def column_widths_def HEADER_NAME_def)
  note table = build_rows [OF four nonempty]
  have count: "length (row_text (column_widths rows) header_row
      # line (computeLayout rows) # map (row_text (column_widths rows)) rows) =
      length (components pkgs) + 2"
    by (simp add: rows_def)
  have lines: "list_all single_line rows \<longrightarrow>
      split_on CHR ''\<newline>'' (build rows) =
        row_text (column_widths rows) header_row
        # line (computeLayout rows)
        # map (row_text (column_widths rows)) rows"
  proof
    assume single: "list_all single_line rows"
    have "list_all (\<lambda>x. CHR ''\<newline>'' \<notin> set x)
        (row_text (column_widths rows) header_row
         # line (computeLayout rows) # map (row_text (column_widths rows)) rows)"
      using single
      by (auto simp: list_all_iff row_text_single_line single_line_header computeLayout_def
          Let_def)
    from split_on_join [OF this] show "split_on CHR ''\<newline>'' (build rows) =
        row_text (column_widths rows) header_row
        # line (computeLayout rows)
        # map (row_text (column_widths rows)) rows"
      by (simp add: table)
  qed
  from src raw header dashes table count lines show ?thesis by blast
qed

text \<open>The table of the example repository.\<close>

theorem status_table_witness:
  "\<exists>table.
     showInstalledStatus demo_pkgs = Inr [Info ''\<newline>Overview\<newline>========'', Info table]
     \<and> split_on CHR ''\<newline>'' table =
         [''Module    Installed    Expected    Latest    '',
          ''-----------------------------------------'',
          ''web                    1.2.0       1.2.0     '',
          ''api       1.0.0        1.2.0       1.2.0     '']"
proof -
  let ?rows = "[[new_cell ''web'' 0, new_cell [] 1, new_cell ''1.2.0'' 2, new_cell ''1.2.0'' 3],
                [new_cell ''api'' 0, new_cell ''1.0.0'' 1, new_cell ''1.2.0'' 2, new_cell ''1.2.0'' 3]]"
  have comps: "components demo_pkgs \<noteq> []" and latest: "latestVersion demo_pkgs = Some ''1.2.0''"
    by (simp_all add: demo_pkgs_def)
  have src: "readSourceDate demo_pkgs = Inr ?rows"
    by (simp add: readSourceDate_def demo_pkgs_def demo_web_def demo_api_def)
  have single: "list_all single_line ?rows"
    by (simp add: single_line_def new_cell_def)
  have texts: "row_text (column_widths ?rows) header_row
      # line (computeLayout ?rows)
      # map (row_text (column_widths ?rows)) ?rows =
      [''Module    Installed    Expected    Latest    '',
       ''-----------------------------------------'',
       ''web                    1.2.0       1.2.0     '',
       ''api       1.0.0        1.2.0       1.2.0     '']"
    by code_simp
  from status_table [OF comps latest] src single
  have "split_on CHR ''\<newline>'' (build ?rows) =
      row_text (column_widths ?rows) header_row
      # line (computeLayout ?rows)
      # map (row_text (column_widths ?rows)) ?rows"
    by auto
  with texts have "split_on CHR ''\<newline>'' (build ?rows) =
      [''Module    Installed    Expected    Latest    '',
       ''-----------------------------------------'',
       ''web                    1.2.0       1.2.0     '',
       ''api       1.0.0        1.2.0       1.2.0     '']"
    by simp
  moreover have "showInstalledStatus demo_pkgs =
      Inr [Info ''\<newline>Overview\<newline>========'', Info (build ?rows)]"
    by (simp add: showInstalledStatus_def src)
  ultimately show ?thesis by blast
qed

text \<open>
  The claim as stated fails for a collection without components: the separator is
  written before the first data row only, so the output is the header row alone, one
  row and not two.
\<close>

theorem status_table_counterexample:
  "showInstalledStatus empty_pkgs =
     Inr [Info ''\<newline>Overview\<newline>========'', Info ''Module    Installed    Expected    Latest    '']
   \<and> split_on CHR ''\<newline>'' ''Module    Installed    Expected    Latest    '' = [''Module    Installed    Expected    Latest    '']"
  by code_simp

section \<open>The filter of uninstalled components\<close>

lemma initialize_exist:
  assumes "initialize d name path = Inr c"
  shows "exist c = (lib_files d (krLibraryPackageJson c) \<noteq> None)"
    and "\<not> exist c \<Longrightarrow> currentVersion c = []"
    and "exist c \<Longrightarrow> lib_files d (krLibraryPackageJson c) = Some (Content (currentVersion c))"
  using assms
  by (auto simp: initialize_def Let_def getCurrentVersion_def checkExist_def
      split: sum.splits option.splits stored.splits if_splits)

lemma initComponents_member:
  "initComponents d rt cfg = Inr comps \<Longrightarrow> c \<in> set comps \<Longrightarrow>
   \<exists>name path. initialize d name path = Inr c"
proof (induction cfg arbitrary: comps)
  case Nil
  then show ?case by simp
next
  case (Cons kd cfg)
  obtain key dir where kd: "kd = (key, dir)" by (cases kd)
  from Cons.prems(1) kd obtain c0 cs where
    c0: "initialize d key (path_join rt dir) = Inr c0" and
    cs: "initComponents d rt cfg = Inr cs" and comps: "comps = c0 # cs"
    by (auto split: sum.splits)
  show ?case
  proof (cases "c = c0")
    case True
    with c0 show ?thesis by blast
  next
    case False
    with Cons.prems(2) comps have "c \<in> set cs" by simp
    with Cons.IH cs show ?thesis by blast
  qed
qed

text \<open>
  C7, as the code has it. \<open>getUnInstalled\<close> goes by the existence of the installed
  manifest, not by the version string: on a collection built by discovery it holds
  exactly the components whose installed manifest is absent; each of these has the empty
  installed version; and a component with the empty installed version is in it unless
  its installed manifest exists and itself holds the empty version string.
\<close>

theorem uninstalled_filter:
  assumes "initComponents d rt cfg = Inr comps" and "c \<in> set comps"
  shows "(c \<in> set (getUnInstalled \<lparr>root = rt, components = comps, latestVersion = latest\<rparr>)
            \<longleftrightarrow> lib_files d (krLibraryPackageJson c) = None)
       \<and> (lib_files d (krLibraryPackageJson c) = None \<longrightarrow> currentVersion c = [])
       \<and> (currentVersion c = [] \<and> lib_files d (krLibraryPackageJson c) \<noteq> Some (Content [])
            \<longrightarrow> c \<in> set (getUnInstalled \<lparr>root = rt, components = comps,
                                          latestVersion = latest\<rparr>))"
proof -
  from initComponents_member [OF assms] obtain name path where
    init: "initialize d name path = Inr c" by blast
  note e = initialize_exist [OF init]
  have mem: "c \<in> set (getUnInstalled \<lparr>root = rt, components = comps, latestVersion = latest\<rparr>)
      \<longleftrightarrow> \<not> exist c"
    using assms(2) by (simp add: getUnInstalled_def)
  show ?thesis
    unfolding mem using e by auto
qed

theorem uninstalled_filter_witness:
  "demo_web \<in> set (getUnInstalled \<lparr>root = ''/repo'', components = [demo_web, demo_api],
                                     latestVersion = Some ''1.2.0''\<rparr>)
   \<and> lib_files demo_disk (krLibraryPackageJson demo_web) = None
   \<and> currentVersion demo_web = []
   \<and> demo_api \<notin> set (getUnInstalled \<lparr>root = ''/repo'', components = [demo_web, demo_api],
                                        latestVersion = Some ''1.2.0''\<rparr>)"
proof -
  have init: "initComponents demo_disk ''/repo'' [(''web'', ''web''), (''api'', ''api'')] =
      Inr [demo_web, demo_api]"
    using demo_collection [of None]
    by (simp add: LeyserkidsComponentCollection_def demo_config_def split: sum.splits)
  have web: "demo_web \<in> set [demo_web, demo_api]" and api: "demo_api \<in> set [demo_web, demo_api]"
    by simp_all
  have absent: "lib_files demo_disk (krLibraryPackageJson demo_web) = None"
    by (simp add: demo_disk_def demo_web_def)
  have present: "lib_files demo_disk (krLibraryPackageJson demo_api) \<noteq> None"
    by (simp add: demo_disk_def demo_api_def)
  from uninstalled_filter [OF init web, of "Some ''1.2.0''"]
    uninstalled_filter [OF init api, of "Some ''1.2.0''"] absent present
  show ?thesis by blast
qed

text \<open>
  The claim as stated fails: a component whose installed manifest exists with an empty
  version string has the empty installed version and is not in \<open>getUnInstalled\<close>.
\<close>

theorem uninstalled_filter_counterexample:
  "initComponents blank_version_disk ''/repo'' [(''web'', ''web'')] = Inr [blank_web]
   \<and> currentVersion blank_web = []
   \<and> blank_web \<notin> set (getUnInstalled \<lparr>root = ''/repo'', components = [blank_web],
                                          latestVersion = Some ''1.2.0''\<rparr>)"
  by (simp add: initialize_def path_join_def COMPONENT_PKG_FILE_def KR_LIB_PKG_FILE_def
      getCurrentVersion_def getExpectedVersion_def checkExist_def blank_version_disk_def
      require_def demo_expected blank_web_def getUnInstalled_def)

section \<open>Batch install\<close>

text \<open>
  C8. When every install of a batch finishes (its child process closes), the promise of
  the batch resolves, whatever the exit codes are: nothing is raised. There is one log
  per component; each install was started at its version; and an install that closed
  with code 0 ends its log with the success line, any other code (or \<open>null\<close>) with
  the error line that reports the code.
\<close>

theorem batch_install_completes:
  assumes "list_all (\<lambda>c. closing (npm (componentPath c)
              [''install'', KR_LIB_NPM_URL cst @ versionFinderFunc c]) \<noteq> NeverCloses)
            componentArray"
  shows "snd (installPackagesWithVersionAsync cst npm componentArray versionFinderFunc) = Resolved ()
       \<and> length (fst (installPackagesWithVersionAsync cst npm componentArray versionFinderFunc)) =
           length componentArray
       \<and> (\<forall>i < length componentArray.
            Spawn (componentPath (componentArray ! i))
              [''install'', KR_LIB_NPM_URL cst @ versionFinderFunc (componentArray ! i)]
              \<in> set (fst (installPackagesWithVersionAsync cst npm componentArray versionFinderFunc) ! i)
            \<and> (\<forall>code. closing (npm (componentPath (componentArray ! i))
                    [''install'', KR_LIB_NPM_URL cst @ versionFinderFunc (componentArray ! i)]) =
                    Closes code \<longrightarrow>
                  last (fst (installPackagesWithVersionAsync cst npm componentArray versionFinderFunc) ! i) =
                    (if code = Some 0
                     then Success (''Install kr-library into '' @ componentPath (componentArray ! i)
                                   @ '' successfully'')
                     else ErrorLog (''Failed install kr-library at ''
                                    @ componentPath (componentArray ! i)
                                    @ '' with code: '' @ show_code code))))"
proof -
  let ?one = "\<lambda>c. installSpecificVersionAsync cst npm (componentPath c) (versionFinderFunc c)"
  have logs: "fst (installPackagesWithVersionAsync cst npm componentArray versionFinderFunc) =
      map (\<lambda>c. fst (?one c)) componentArray"
    by (simp add: installPackagesWithVersionAsync_def Let_def comp_def)
  have resolved:
    "snd (installPackagesWithVersionAsync cst npm componentArray versionFinderFunc) = Resolved ()"
    using assms by (rule batch_install_resolved)
  have each: "\<forall>i < length componentArray.
      Spawn (componentPath (componentArray ! i))
        [''install'', KR_LIB_NPM_URL cst @ versionFinderFunc (componentArray ! i)]
        \<in> set (fst (installPackagesWithVersionAsync cst npm componentArray versionFinderFunc) ! i)
      \<and> (\<forall>code. closing (npm (componentPath (componentArray ! i))
              [''install'', KR_LIB_NPM_URL cst @ versionFinderFunc (componentArray ! i)]) =
              Closes code \<longrightarrow>
            last (fst (installPackagesWithVersionAsync cst npm componentArray versionFinderFunc) ! i) =
              (if code = Some 0
               then Success (''Install kr-library into '' @ componentPath (componentArray ! i)
                             @ '' successfully'')
               else ErrorLog (''Failed install kr-library at ''
                              @ componentPath (componentArray ! i)
                              @ '' with code: '' @ show_code code)))"
  proof (intro allI impI conjI)
    fix i assume i: "i < length componentArray"
    then show "Spawn (componentPath (componentArray ! i))
        [''install'', KR_LIB_NPM_URL cst @ versionFinderFunc (componentArray ! i)]
        \<in> set (fst (installPackagesWithVersionAsync cst npm componentArray versionFinderFunc) ! i)"
      by (simp add: logs install_started)
  next
    fix i code assume i: "i < length componentArray"
      and "closing (npm (componentPath (componentArray ! i))
              [''install'', KR_LIB_NPM_URL cst @ versionFinderFunc (componentArray ! i)]) =
              Closes code"
    from install_closed [where npm = npm and p = "componentPath (componentArray ! i)"
        and cst = cst and v = "versionFinderFunc (componentArray ! i)", OF this(2)] i
    show "last (fst (installPackagesWithVersionAsync cst npm componentArray versionFinderFunc) ! i) =
        (if code = Some 0
         then Success (''Install kr-library into '' @ componentPath (componentArray ! i)
                       @ '' successfully'')
         else ErrorLog (''Failed install kr-library at ''
                        @ componentPath (componentArray ! i)
                        @ '' with code: '' @ show_code code))"
      by (simp add: logs)
  qed
  from resolved each show ?thesis by (simp add: logs)
qed

theorem batch_install_completes_witness:
  "snd (installPackagesWithVersionAsync demo_config demo_npm [demo_web, demo_api] expectedVersion) =
     Resolved ()
   \<and> last (fst (installPackagesWithVersionAsync demo_config demo_npm [demo_web, demo_api]
                  expectedVersion) ! 0) =
       ErrorLog ''Failed install kr-library at /repo/web with code: 1''
   \<and> last (fst (installPackagesWithVersionAsync demo_config demo_npm [demo_web, demo_api]
                  expectedVersion) ! 1) =
       Success ''Install kr-library into /repo/api successfully''"
proof -
  have closes: "list_all (\<lambda>c. closing (demo_npm (componentPath c)
      [''install'', KR_LIB_NPM_URL demo_config @ expectedVersion c]) \<noteq> NeverCloses)
      [demo_web, demo_api]"
    by (simp add: demo_npm_def)
  have web: "closing (demo_npm (componentPath ([demo_web, demo_api] ! 0))
      [''install'', KR_LIB_NPM_URL demo_config @ expectedVersion ([demo_web, demo_api] ! 0)]) =
      Closes (Some 1)"
    by (simp add: demo_npm_def demo_web_def)
  have api: "closing (demo_npm (componentPath ([demo_web, demo_api] ! 1))
      [''install'', KR_LIB_NPM_URL demo_config @ expectedVersion ([demo_web, demo_api] ! 1)]) =
      Closes (Some 0)"
    by (simp add: demo_npm_def demo_api_def)
  have one: "show_code (Some 1) = ''1''"
    by (simp add: show_code_def digits_of.simps)
  have paths: "componentPath demo_web = ''/repo/web''" "componentPath demo_api = ''/repo/api''"
    by (simp_all add: demo_web_def demo_api_def)
  note t = batch_install_completes [OF closes]
  from t have resolved: "snd (installPackagesWithVersionAsync demo_config demo_npm
      [demo_web, demo_api] expectedVersion) = Resolved ()"
    by (rule conjunct1)
  from t have each: "\<forall>i < length [demo_web, demo_api].
      (\<forall>code. closing (demo_npm (componentPath ([demo_web, demo_api] ! i))
          [''install'', KR_LIB_NPM_URL demo_config @ expectedVersion ([demo_web, demo_api] ! i)]) =
          Closes code \<longrightarrow>
        last (fst (installPackagesWithVersionAsync demo_config demo_npm [demo_web, demo_api]
                expectedVersion) ! i) =
          (if code = Some 0
           then Success (''Install kr-library into '' @ componentPath ([demo_web, demo_api] ! i)
                         @ '' successfully'')
           else ErrorLog (''Failed install kr-library at ''
                          @ componentPath ([demo_web, demo_api] ! i)
                          @ '' with code: '' @ show_code code)))"
    by blast
  have "(0::nat) < length [demo_web, demo_api]" by simp
  with each web have first: "last (fst (installPackagesWithVersionAsync demo_config demo_npm
      [demo_web, demo_api] expectedVersion) ! 0) =
      ErrorLog (''Failed install kr-library at '' @ componentPath ([demo_web, demo_api] ! 0)
                @ '' with code: '' @ show_code (Some 1))"
    by fastforce
  have "(1::nat) < length [demo_web, demo_api]" by simp
  with each api have second: "last (fst (installPackagesWithVersionAsync demo_config demo_npm
      [demo_web, demo_api] expectedVersion) ! 1) =
      Success (''Install kr-library into '' @ componentPath ([demo_web, demo_api] ! 1)
               @ '' successfully'')"
    by fastforce
  from resolved first second show ?thesis by (simp add: one paths)
qed

section \<open>Never-installed components\<close>



section \<open>setVersion without dependencies\<close>

text \<open>
  C10. On a manifest that has no \<open>dependencies\<close> field (an object without the key, or
  a document that is no object at all), \<open>setVersionAsync\<close> raises (its promise is
  rejected with a \<open>TypeError\<close>) and the disk afterwards is the disk before: nothing is
  written.
\<close>

theorem setVersion_without_dependencies:
  assumes "pkg_files d (packageJson c) = Some (Content pkg)"
    and "\<not> has_dependencies pkg"
  shows "setVersionAsync cst d c version = (Rejected TypeError, d)"
  using assms
  by (cases pkg) (auto simp: setVersionAsync_def require_def has_dependencies_def)

theorem setVersion_without_dependencies_witness:
  "setVersionAsync demo_config bare_disk demo_web ''1.3.0'' = (Rejected TypeError, bare_disk)"
proof -
  have manifest: "pkg_files bare_disk (packageJson demo_web) =
      Some (Content (JObject [(''name'', JString ''app'')]))"
    by (simp add: bare_disk_def demo_web_def)
  have none: "\<not> has_dependencies (JObject [(''name'', JString ''app'')])"
    by (simp add: has_dependencies_def)
  from setVersion_without_dependencies [OF manifest none] show ?thesis .
qed

end
